theory Spec2Isabelle
  imports Main "HOL-Library.Word" "HOL-Library.Multiset" "HOL-Library.Char_ord"
    "HOL-Library.List_Lexorder"
begin

unbundle bit_operations_syntax

section \<open>Canonical statuses\<close>

text \<open>
  Package \<open>constants\<close> is not among the sources; the code refers to its status strings only
  by name (\<open>constants.PaymentStatusSuccess\<close>, ...). Each named constant is a constructor
  here, one datatype per family of constants.
\<close>

datatype PaymentStatus =
    PaymentStatusInitiated
  | PaymentStatusPending
  | PaymentStatusSuccess
  | PaymentStatusFailed
  | PaymentStatusExpired

datatype WalletRechargeStatus =
    WalletRechargeStatusPending
  | WalletRechargeStatusSuccess
  | WalletRechargeStatusFailed
  | WalletRechargeStatusExpired

text \<open>\<open>tokenpay.ToPaymentStatus\<close> (tokenpay.go): a Go \<open>switch\<close> on the provider's integer.\<close>

definition ToPaymentStatus :: "int \<Rightarrow> PaymentStatus" where
  "ToPaymentStatus status =
     (if status = 1 then PaymentStatusSuccess
      else if status = 2 then PaymentStatusExpired
      else PaymentStatusPending)"

section \<open>Payments, recharge orders and the expiry of unpaid wallet top-ups\<close>

text \<open>
  The fields of \<open>models.Payment\<close> and \<open>models.WalletRechargeOrder\<close> that the service code and
  its tests read or write. Time stamps are natural numbers; a \<open>*time.Time\<close> that may be nil
  is an option.
\<close>

record Payment =
  ID :: nat
  OrderID :: nat
  ChannelID :: nat
  ProviderType :: string
  ProviderRef :: string
  Amount :: int
  Status :: PaymentStatus
  PaidAt :: "nat option"
  ExpiredAt :: "nat option"
  UpdatedAt :: nat

record WalletRechargeOrder =
  Recharge_ID :: nat
  Recharge_PaymentID :: nat
  Recharge_Status :: WalletRechargeStatus
  Recharge_PaidAt :: "nat option"
  Recharge_UpdatedAt :: nat

text \<open>The two tables the expiry transaction touches; a table is the list of its rows.\<close>

record DB =
  payments :: "Payment list"
  recharges :: "WalletRechargeOrder list"

datatype error =
    ErrPaymentInvalid
  | ErrPaymentUpdateFailed
  | ErrPaymentNotFound
  | ErrWalletRechargeNotFound

text \<open>
  What the surroundings decide for one call: the clock (\<open>time.Now()\<close>) and whether each of the
  four database statements fails for a reason other than a missing row.
\<close>

record Env =
  now :: nat
  payment_query_err :: bool
  recharge_query_err :: bool
  payment_update_err :: bool
  recharge_update_err :: bool

text \<open>The receiver: \<open>s\<close> may be nil (\<open>None\<close>), and so may each repository it holds.\<close>

record PaymentService =
  paymentRepo_set :: bool
  walletRepo_set :: bool

text \<open>
  Modelled from the spec: the repository layer (\<open>PaymentRepository\<close>, \<open>WalletRepository\<close>) is not
  among the sources. A row is fetched by its key and \<open>Update\<close> replaces the row carrying the
  same primary key; \<open>GetRechargeOrderByPaymentIDForUpdate\<close> yields the recharge order owned by
  the given payment, or nil.
\<close>

definition First_payment :: "DB \<Rightarrow> nat \<Rightarrow> Payment option" where
  "First_payment tx paymentID = find (\<lambda>p. ID p = paymentID) (payments tx)"

definition GetRechargeOrderByPaymentIDForUpdate :: "DB \<Rightarrow> nat \<Rightarrow> WalletRechargeOrder option" where
  "GetRechargeOrderByPaymentIDForUpdate tx paymentID =
     find (\<lambda>r. Recharge_PaymentID r = paymentID) (recharges tx)"

definition Update_payment :: "Payment \<Rightarrow> DB \<Rightarrow> DB" where
  "Update_payment p tx = tx\<lparr>payments := map (\<lambda>q. if ID q = ID p then p else q) (payments tx)\<rparr>"

definition UpdateRechargeOrder :: "WalletRechargeOrder \<Rightarrow> DB \<Rightarrow> DB" where
  "UpdateRechargeOrder r tx =
     tx\<lparr>recharges := map (\<lambda>q. if Recharge_ID q = Recharge_ID r then r else q) (recharges tx)\<rparr>"

text \<open>
  \<open>paymentRepo.Transaction\<close>: the closure runs on the database; when it returns an error the
  transaction is rolled back and the database is as before.
\<close>

definition Transaction :: "(DB \<Rightarrow> (error + 'a) \<times> DB) \<Rightarrow> DB \<Rightarrow> (error + 'a) \<times> DB" where
  "Transaction body db =
     (case body db of
        (Inl e, tx) \<Rightarrow> (Inl e, db)
      | (Inr v, tx) \<Rightarrow> (Inr v, tx))"

text \<open>\<open>canExpireWalletRechargePayment\<close> (payment_service_recharge_expire.go, lines 73-90).\<close>

definition canExpireWalletRechargePayment :: "Payment option \<Rightarrow> WalletRechargeOrder option \<Rightarrow> bool" where
  "canExpireWalletRechargePayment payment recharge =
     (case (payment, recharge) of
        (Some p, Some r) \<Rightarrow>
          if Recharge_Status r \<noteq> WalletRechargeStatusPending then False
          else if Status p = PaymentStatusSuccess \<or> Recharge_Status r = WalletRechargeStatusSuccess then False
          else if Status p = PaymentStatusFailed \<or> Recharge_Status r = WalletRechargeStatusFailed then False
          else if Status p = PaymentStatusExpired \<or> Recharge_Status r = WalletRechargeStatusExpired then False
          else Status p = PaymentStatusInitiated \<or> Status p = PaymentStatusPending
      | _ \<Rightarrow> False)"

text \<open>The closure passed to \<open>Transaction\<close> (lines 24-66); its result is the variable \<open>output\<close>.\<close>

definition expireTx :: "Env \<Rightarrow> nat \<Rightarrow> DB \<Rightarrow> (error + Payment) \<times> DB" where
  "expireTx env paymentID tx =
     (if payment_query_err env then (Inl ErrPaymentUpdateFailed, tx)
      else case First_payment tx paymentID of
        None \<Rightarrow> (Inl ErrPaymentNotFound, tx)
      | Some payment \<Rightarrow>
          if OrderID payment \<noteq> 0 then (Inr payment, tx)
          else if recharge_query_err env then (Inl ErrPaymentUpdateFailed, tx)
          else case GetRechargeOrderByPaymentIDForUpdate tx (ID payment) of
            None \<Rightarrow> (Inl ErrWalletRechargeNotFound, tx)
          | Some recharge \<Rightarrow>
              if \<not> canExpireWalletRechargePayment (Some payment) (Some recharge)
              then (Inr payment, tx)
              else
                let payment' = payment\<lparr>Status := PaymentStatusExpired,
                                 ExpiredAt := Some (now env), UpdatedAt := now env\<rparr>
                in if payment_update_err env then (Inl ErrPaymentUpdateFailed, tx)
                   else
                     let tx1 = Update_payment payment' tx;
                         recharge' = recharge\<lparr>Recharge_Status := WalletRechargeStatusExpired,
                                       Recharge_UpdatedAt := now env\<rparr>
                     in if recharge_update_err env then (Inl ErrPaymentUpdateFailed, tx1)
                        else (Inr payment', UpdateRechargeOrder recharge' tx1))"

text \<open>\<open>PaymentService.ExpireWalletRechargePayment\<close> (lines 15-71).\<close>

definition ExpireWalletRechargePayment ::
    "PaymentService option \<Rightarrow> Env \<Rightarrow> DB \<Rightarrow> nat \<Rightarrow> (error + Payment) \<times> DB" where
  "ExpireWalletRechargePayment s env db paymentID =
     (if paymentID = 0 then (Inl ErrPaymentInvalid, db)
      else case s of
        None \<Rightarrow> (Inl ErrPaymentUpdateFailed, db)
      | Some svc \<Rightarrow>
          if \<not> paymentRepo_set svc \<or> \<not> walletRepo_set svc then (Inl ErrPaymentUpdateFailed, db)
          else Transaction (expireTx env paymentID) db)"

text \<open>The rows the expiry writes, and the database after both writes.\<close>

definition expired_payment :: "Env \<Rightarrow> Payment \<Rightarrow> Payment" where
  "expired_payment env payment =
     payment\<lparr>Status := PaymentStatusExpired, ExpiredAt := Some (now env), UpdatedAt := now env\<rparr>"

definition expired_recharge :: "Env \<Rightarrow> WalletRechargeOrder \<Rightarrow> WalletRechargeOrder" where
  "expired_recharge env recharge =
     recharge\<lparr>Recharge_Status := WalletRechargeStatusExpired, Recharge_UpdatedAt := now env\<rparr>"

definition expired_db :: "Env \<Rightarrow> Payment \<Rightarrow> WalletRechargeOrder \<Rightarrow> DB \<Rightarrow> DB" where
  "expired_db env payment recharge db =
     UpdateRechargeOrder (expired_recharge env recharge)
       (Update_payment (expired_payment env payment) db)"

text \<open>A service with both repositories, and surroundings in which no statement fails.\<close>

definition wired :: "PaymentService option" where
  "wired = Some \<lparr>paymentRepo_set = True, walletRepo_set = True\<rparr>"

definition calm :: "nat \<Rightarrow> Env" where
  "calm t = \<lparr>now = t, payment_query_err = False, recharge_query_err = False,
              payment_update_err = False, recharge_update_err = False\<rparr>"

text \<open>The fixture of the service tests (\<open>createWalletRechargeFixture\<close>): payment 1, recharge 1.\<close>

definition fixture_payment :: "PaymentStatus \<Rightarrow> Payment" where
  "fixture_payment st =
     \<lparr>ID = 1, OrderID = 0, ChannelID = 1, ProviderType = ''official'',
      ProviderRef = ''RECHARGE-PAY-1'', Amount = 88, Status = st,
      PaidAt = (if st = PaymentStatusSuccess then Some 1000 else None),
      ExpiredAt = None, UpdatedAt = 1000\<rparr>"

definition fixture_recharge :: "WalletRechargeStatus \<Rightarrow> WalletRechargeOrder" where
  "fixture_recharge st =
     \<lparr>Recharge_ID = 1, Recharge_PaymentID = 1, Recharge_Status = st,
      Recharge_PaidAt = (if st = WalletRechargeStatusSuccess then Some 1000 else None),
      Recharge_UpdatedAt = 1000\<rparr>"

definition fixture_db :: "PaymentStatus \<Rightarrow> WalletRechargeStatus \<Rightarrow> DB" where
  "fixture_db ps rs = \<lparr>payments = [fixture_payment ps], recharges = [fixture_recharge rs]\<rparr>"

text \<open>The fixture's payment in a database that holds no recharge order for it.\<close>

definition orphan_db :: "PaymentStatus \<Rightarrow> DB" where
  "orphan_db ps = \<lparr>payments = [fixture_payment ps], recharges = []\<rparr>"


section \<open>Status mappings of the other providers\<close>

text \<open>
  Modelled from the spec: the adapters of the card provider (package \<open>stripe\<close>) and of the
  second token provider (package \<open>epusdt\<close>) are not among the sources; only their tests
  are. Section 4.1 of the specification: each provider's status space (small integer
  codes, event-type strings, payment and session status pairs) maps to Pending, Success,
  Failed or Expired, and an unrecognised code defaults to Pending. The cases of each
  mapping are the rows of its test: \<open>TestToPaymentStatus\<close> (epusdt_test.go) and
  \<open>TestMapPaymentIntentStatus\<close>, \<open>TestMapCheckoutSessionStatus\<close>, \<open>TestMapEventTypeStatus\<close>
  (stripe_test.go).

  The values of the constants that the tests name are not among the sources either. The
  integer codes of \<open>epusdt\<close> are parameters. Each string constant of \<open>stripe\<close> is a
  constructor, and one more constructor carries a string that is none of them: a status
  or an event type the mapping has no case for, such as the \<open>unknown\<close>, \<open>unpaid\<close>, \<open>open\<close> and
  \<open>unknown.event\<close> of the tests. Event types that the adapter may recognise beyond the four
  of its test are not pinned by any source and have no constructor.
\<close>

definition CanonicalStatus :: "PaymentStatus set" where
  "CanonicalStatus =
     {PaymentStatusPending, PaymentStatusSuccess, PaymentStatusFailed, PaymentStatusExpired}"

record StatusCodes =
  StatusWaiting :: int
  StatusSuccess :: int
  StatusExpired :: int

text \<open>\<open>epusdt.ToPaymentStatus\<close>: success, expired, and Pending for every other code.\<close>

definition epusdt_ToPaymentStatus :: "StatusCodes \<Rightarrow> int \<Rightarrow> PaymentStatus" where
  "epusdt_ToPaymentStatus codes status =
     (if status = StatusSuccess codes then PaymentStatusSuccess
      else if status = StatusExpired codes then PaymentStatusExpired
      else PaymentStatusPending)"

datatype PaymentIntentStatus =
    stripePIStatusSucceeded
  | stripePIStatusProcessing
  | stripePIStatusCanceled
  | stripePIStatusReqPayMeth
  | OtherPIStatus string

text \<open>\<open>stripe.mapPaymentIntentStatus\<close>.\<close>

fun mapPaymentIntentStatus :: "PaymentIntentStatus \<Rightarrow> PaymentStatus" where
  "mapPaymentIntentStatus stripePIStatusSucceeded = PaymentStatusSuccess"
| "mapPaymentIntentStatus stripePIStatusProcessing = PaymentStatusPending"
| "mapPaymentIntentStatus stripePIStatusCanceled = PaymentStatusFailed"
| "mapPaymentIntentStatus stripePIStatusReqPayMeth = PaymentStatusFailed"
| "mapPaymentIntentStatus (OtherPIStatus status) = PaymentStatusPending"

datatype CheckoutPaymentStatus =
    stripePaymentStatusPaid
  | stripePaymentNoRequired
  | OtherPaymentStatus string

datatype CheckoutSessionStatus =
    stripeSessionComplete
  | stripeSessionExpired
  | OtherSessionStatus string

text \<open>
  \<open>stripe.mapCheckoutSessionStatus\<close>. The test pins four pairs; on the others a payment
  status that needs no further payment decides first (the test's row is named
  \<open>PaidWins\<close>), then an expired session.
\<close>

definition mapCheckoutSessionStatus ::
  "CheckoutPaymentStatus \<Rightarrow> CheckoutSessionStatus \<Rightarrow> PaymentStatus" where
  "mapCheckoutSessionStatus paymentStatus sessionStatus =
     (if paymentStatus = stripePaymentStatusPaid \<or> paymentStatus = stripePaymentNoRequired
        then PaymentStatusSuccess
      else if sessionStatus = stripeSessionExpired then PaymentStatusExpired
      else PaymentStatusPending)"

datatype EventType =
    stripeEventCheckoutSessionCompleted
  | stripeEventCheckoutSessionExpired
  | stripeEventCheckoutSessionAsyncPaymentFailed
  | stripeEventPaymentIntentProcessing
  | OtherEvent string

text \<open>
  \<open>stripe.mapEventTypeStatus\<close> returns a status and whether the event type is one it maps
  (Go: \<open>(string, bool)\<close>; the empty string, which is no status, is \<open>None\<close>). What it answers
  for an event type it has no case for is the parameter \<open>unrecognised\<close>: by the words of
  the specification the mapping defaults to Pending (\<open>defaults_to_pending\<close>), while the test
  expects the empty string and \<open>false\<close> (\<open>not_mapped\<close>).
\<close>

type_synonym mapped = "PaymentStatus option \<times> bool"

fun mapEventTypeStatus :: "mapped \<Rightarrow> EventType \<Rightarrow> mapped" where
  "mapEventTypeStatus unrecognised stripeEventCheckoutSessionCompleted =
     (Some PaymentStatusSuccess, True)"
| "mapEventTypeStatus unrecognised stripeEventCheckoutSessionExpired =
     (Some PaymentStatusExpired, True)"
| "mapEventTypeStatus unrecognised stripeEventCheckoutSessionAsyncPaymentFailed =
     (Some PaymentStatusFailed, True)"
| "mapEventTypeStatus unrecognised stripeEventPaymentIntentProcessing =
     (Some PaymentStatusPending, True)"
| "mapEventTypeStatus unrecognised (OtherEvent eventType) = unrecognised"

definition defaults_to_pending :: mapped where
  "defaults_to_pending = (Some PaymentStatusPending, True)"

definition not_mapped :: mapped where
  "not_mapped = (None, False)"

text \<open>The five rows of \<open>TestMapEventTypeStatus\<close> (stripe_test.go, lines 132-156).\<close>

definition TestMapEventTypeStatus :: "(EventType \<Rightarrow> mapped) \<Rightarrow> bool" where
  "TestMapEventTypeStatus f \<longleftrightarrow>
     f stripeEventCheckoutSessionCompleted = (Some PaymentStatusSuccess, True)
     \<and> f stripeEventCheckoutSessionExpired = (Some PaymentStatusExpired, True)
     \<and> f stripeEventCheckoutSessionAsyncPaymentFailed = (Some PaymentStatusFailed, True)
     \<and> f stripeEventPaymentIntentProcessing = (Some PaymentStatusPending, True)
     \<and> f (OtherEvent ''unknown.event'') = (None, False)"

text \<open>Three distinct codes for the examples; the values of the constants are not known.\<close>

definition example_codes :: StatusCodes where
  "example_codes = \<lparr>StatusWaiting = 1, StatusSuccess = 2, StatusExpired = 3\<rparr>"
section \<open>Strings\<close>

text \<open>
  A Go string is a sequence of bytes, here a \<open>string\<close> (a list of 8-bit characters). The
  functions of package \<open>strings\<close> and \<open>strconv\<close> that the code calls belong to Go's standard
  library; they are written out after the library's documented behaviour.

  White space, as \<open>unicode.IsSpace\<close> defines it: the six ASCII characters tab, line feed,
  vertical tab, form feed, carriage return and space, and the runes U+0085, U+00A0, U+1680,
  U+2000 to U+200A, U+2028, U+2029, U+202F, U+205F and U+3000, which a string holds in
  their UTF-8 encoding of two or three bytes.
\<close>

definition isAsciiSpace :: "char \<Rightarrow> bool" where
  "isAsciiSpace c \<longleftrightarrow> c \<in> {CHR 0x09, CHR 0x0A, CHR 0x0B, CHR 0x0C, CHR 0x0D, CHR 0x20}"

definition unicodeSpaces :: "string list" where
  "unicodeSpaces =
     [[CHR 0xC2, CHR 0x85], [CHR 0xC2, CHR 0xA0], [CHR 0xE1, CHR 0x9A, CHR 0x80],
      [CHR 0xE2, CHR 0x80, CHR 0x80], [CHR 0xE2, CHR 0x80, CHR 0x81],
      [CHR 0xE2, CHR 0x80, CHR 0x82], [CHR 0xE2, CHR 0x80, CHR 0x83],
      [CHR 0xE2, CHR 0x80, CHR 0x84], [CHR 0xE2, CHR 0x80, CHR 0x85],
      [CHR 0xE2, CHR 0x80, CHR 0x86], [CHR 0xE2, CHR 0x80, CHR 0x87],
      [CHR 0xE2, CHR 0x80, CHR 0x88], [CHR 0xE2, CHR 0x80, CHR 0x89],
      [CHR 0xE2, CHR 0x80, CHR 0x8A], [CHR 0xE2, CHR 0x80, CHR 0xA8],
      [CHR 0xE2, CHR 0x80, CHR 0xA9], [CHR 0xE2, CHR 0x80, CHR 0xAF],
      [CHR 0xE2, CHR 0x81, CHR 0x9F], [CHR 0xE3, CHR 0x80, CHR 0x80]]"

text \<open>The number of bytes of the white-space rune a string starts with (ends with); 0 if none.\<close>

definition leadingSpace :: "string \<Rightarrow> nat" where
  "leadingSpace s =
     (case s of
        [] \<Rightarrow> 0
      | c # cs \<Rightarrow>
          if isAsciiSpace c then 1
          else case find (\<lambda>u. take (length u) s = u) unicodeSpaces of
                 Some u \<Rightarrow> length u
               | None \<Rightarrow> 0)"

definition trailingSpace :: "string \<Rightarrow> nat" where
  "trailingSpace s =
     (case rev s of
        [] \<Rightarrow> 0
      | c # cs \<Rightarrow>
          if isAsciiSpace c then 1
          else case find (\<lambda>u. drop (length s - length u) s = u) unicodeSpaces of
                 Some u \<Rightarrow> length u
               | None \<Rightarrow> 0)"

function TrimLeftSpace :: "string \<Rightarrow> string" where
  "TrimLeftSpace s =
     (if leadingSpace s = 0 then s else TrimLeftSpace (drop (leadingSpace s) s))"
  by pat_completeness auto
termination
  by (relation "measure length") (auto simp: leadingSpace_def split: list.splits)

function TrimRightSpace :: "string \<Rightarrow> string" where
  "TrimRightSpace s =
     (if trailingSpace s = 0 then s else TrimRightSpace (take (length s - trailingSpace s) s))"
  by pat_completeness auto
termination
  by (relation "measure length") (auto simp: trailingSpace_def split: list.splits)

text \<open>\<open>strings.TrimSpace\<close>: leading and trailing white space removed.\<close>

definition TrimSpace :: "string \<Rightarrow> string" where
  "TrimSpace s = TrimRightSpace (TrimLeftSpace s)"

text \<open>
  \<open>strings.EqualFold s t\<close> for an ASCII string \<open>t\<close>, which is what every call in the code
  passes on one side: equality under Unicode simple case folding. An ASCII letter matches
  its other case; beyond ASCII, only U+017F (long s, bytes C5 BF) folds to \<open>s\<close> and only
  U+212A (Kelvin sign, bytes E2 84 AA) folds to \<open>k\<close>.
\<close>

definition asciiLower :: "char \<Rightarrow> char" where
  "asciiLower c =
     (case map_of (zip ''ABCDEFGHIJKLMNOPQRSTUVWXYZ'' ''abcdefghijklmnopqrstuvwxyz'') c of
        None \<Rightarrow> c
      | Some l \<Rightarrow> l)"

definition isAscii :: "char \<Rightarrow> bool" where
  "isAscii c \<longleftrightarrow> (of_char c :: nat) < 128"

fun EqualFold :: "string \<Rightarrow> string \<Rightarrow> bool" where
  "EqualFold [] [] = True"
| "EqualFold [] (c # t) = False"
| "EqualFold (x # s) [] = False"
| "EqualFold (x # s) (c # t) =
     (if isAscii x then asciiLower x = asciiLower c \<and> EqualFold s t
      else if asciiLower c = CHR ''s'' \<and> take 2 (x # s) = [CHR 0xC5, CHR 0xBF]
        then EqualFold (drop 1 s) t
      else if asciiLower c = CHR ''k'' \<and> take 3 (x # s) = [CHR 0xE2, CHR 0x84, CHR 0xAA]
        then EqualFold (drop 2 s) t
      else False)"

text \<open>\<open>strings.Split s sep\<close> for a separator of one byte: the pieces between the separators.\<close>

fun splitAcc :: "char \<Rightarrow> string \<Rightarrow> string \<Rightarrow> string list" where
  "splitAcc sep acc [] = [rev acc]"
| "splitAcc sep acc (c # cs) =
     (if c = sep then rev acc # splitAcc sep [] cs else splitAcc sep (c # acc) cs)"

definition Split :: "string \<Rightarrow> char \<Rightarrow> string list" where
  "Split s sep = splitAcc sep [] s"

text \<open>\<open>strings.SplitN s sep 2\<close>: cut at the first separator, if there is one.\<close>

definition SplitN2 :: "string \<Rightarrow> char \<Rightarrow> string list" where
  "SplitN2 s sep =
     (if sep \<in> set s
      then [takeWhile (\<lambda>c. c \<noteq> sep) s, drop 1 (dropWhile (\<lambda>c. c \<noteq> sep) s)]
      else [s])"

text \<open>
  \<open>strconv.ParseUint s 10 64\<close>: a non-empty string of decimal digits whose value fits into
  64 bits; no sign, no underscore. \<open>None\<close> is the syntax or range error.
\<close>

definition maxUint64 :: nat where
  "maxUint64 = 18446744073709551615"

definition digitVal :: "char \<Rightarrow> nat option" where
  "digitVal c =
     (if CHR ''0'' \<le> c \<and> c \<le> CHR ''9'' then Some (of_char c - of_char CHR ''0'') else None)"

fun parseDigits :: "nat \<Rightarrow> string \<Rightarrow> nat option" where
  "parseDigits n [] = Some n"
| "parseDigits n (c # cs) =
     (case digitVal c of
        None \<Rightarrow> None
      | Some d \<Rightarrow> if n * 10 + d > maxUint64 then None else parseDigits (n * 10 + d) cs)"

definition ParseUint :: "string \<Rightarrow> nat option" where
  "ParseUint s = (if s = [] then None else parseDigits 0 s)"

section \<open>The passthrough payment identifier\<close>

text \<open>
  The loop of \<open>ParsePassThroughPaymentID\<close> over the parts (tokenpay.go, lines 266-275): the
  value that replaces \<open>raw\<close> at the \<open>break\<close>, or \<open>None\<close> when the loop runs to its end.
\<close>

fun paymentIDPart :: "string list \<Rightarrow> string option" where
  "paymentIDPart [] = None"
| "paymentIDPart (part # parts) =
     (let kv = SplitN2 part CHR ''=''
      in if length kv \<noteq> 2 then paymentIDPart parts
         else if EqualFold (TrimSpace (kv ! 0)) ''payment_id'' then Some (TrimSpace (kv ! 1))
         else paymentIDPart parts)"

text \<open>
  \<open>tokenpay.ParsePassThroughPaymentID\<close> (lines 259-282). The result type \<open>uint\<close> has 64 bits
  on the platforms the service is built for, so the conversion from \<open>uint64\<close> changes nothing.
\<close>

definition ParsePassThroughPaymentID :: "string \<Rightarrow> nat" where
  "ParsePassThroughPaymentID passThrough =
     (let raw = TrimSpace passThrough
      in if raw = [] then 0
         else
           let raw' =
                 (if CHR ''='' \<in> set raw
                  then (case paymentIDPart (Split raw CHR ''&'') of
                          Some v \<Rightarrow> v
                        | None \<Rightarrow> raw)
                  else raw)
           in case ParseUint raw' of
                None \<Rightarrow> 0
              | Some parsed \<Rightarrow> if parsed = 0 then 0 else parsed)"

text \<open>Decimal digits and the number a string of digits denotes.\<close>

definition isDigit :: "char \<Rightarrow> bool" where
  "isDigit c \<longleftrightarrow> CHR ''0'' \<le> c \<and> c \<le> CHR ''9''"

definition decimalValue :: "string \<Rightarrow> nat" where
  "decimalValue s = foldl (\<lambda>n c. n * 10 + (of_char c - of_char CHR ''0'')) 0 s"

section \<open>Signing a payload\<close>

text \<open>
  A payload is a Go \<open>map[string]interface{}\<close>. It is given as the list of its entries in the
  order the \<open>range\<close> loop happens to visit them, which Go leaves unspecified; the keys of a
  map are distinct. The dynamic types a value can have: nil, a string, a \<open>json.Number\<close> (the
  number's text), a signed or unsigned integer of any width, a boolean, and anything else
  (arrays, nested objects), which carries the two texts the standard library renders for
  it: what \<open>json.Marshal\<close> yields and what \<open>fmt.Sprintf "%v"\<close> yields. Floating-point values
  are left out: \<open>ParseCallback\<close> decodes numbers as \<open>json.Number\<close>, and \<open>CreatePayment\<close> and
  \<open>QueryOrder\<close> sign strings only.
\<close>

datatype Value =
    VNil
  | VString string
  | VNumber string
  | VInt int
  | VUint nat
  | VBool bool
  | VOther string string

type_synonym payload = "(string \<times> Value) list"

text \<open>\<open>payload[key]\<close>: a missing key reads as nil.\<close>

definition index :: "payload \<Rightarrow> string \<Rightarrow> Value" where
  "index payload key = (case map_of payload key of None \<Rightarrow> VNil | Some v \<Rightarrow> v)"

text \<open>\<open>strconv.FormatUint n 10\<close> and \<open>strconv.FormatInt i 10\<close> (also \<open>strconv.Itoa\<close>).\<close>

definition digitChar :: "nat \<Rightarrow> char" where
  "digitChar d = ''0123456789'' ! d"

fun FormatUint :: "nat \<Rightarrow> string" where
  "FormatUint n = (if n < 10 then [digitChar n] else FormatUint (n div 10) @ [digitChar (n mod 10)])"

definition FormatInt :: "int \<Rightarrow> string" where
  "FormatInt i = (if i < 0 then CHR ''-'' # FormatUint (nat (- i)) else FormatUint (nat i))"

text \<open>\<open>isEmptyValue\<close> (tokenpay.go, lines 366-378).\<close>

fun isEmptyValue :: "Value \<Rightarrow> bool" where
  "isEmptyValue VNil = True"
| "isEmptyValue (VString v) = (TrimSpace v = [])"
| "isEmptyValue (VNumber v) = (TrimSpace v = [])"
| "isEmptyValue _ = False"

text \<open>
  \<open>normalizeSignValue\<close> (lines 380-424). For a value of any other type \<open>json.Marshal\<close> is
  taken to succeed; the fallback to \<open>fmt.Sprintf\<close> on its failure is left out.
\<close>

fun normalizeSignValue :: "Value \<Rightarrow> string" where
  "normalizeSignValue VNil = []"
| "normalizeSignValue (VString v) = TrimSpace v"
| "normalizeSignValue (VNumber v) = TrimSpace v"
| "normalizeSignValue (VInt v) = FormatInt v"
| "normalizeSignValue (VUint v) = FormatUint v"
| "normalizeSignValue (VBool v) = (if v then ''true'' else ''false'')"
| "normalizeSignValue (VOther marshalled printed) = TrimSpace marshalled"

text \<open>\<open>strings.Join\<close>.\<close>

fun Join :: "string list \<Rightarrow> string \<Rightarrow> string" where
  "Join [] sep = []"
| "Join [p] sep = p"
| "Join (p # q # ps) sep = p @ sep @ Join (q # ps) sep"

text \<open>
  \<open>strings.ToLower\<close>. An ASCII capital becomes its small letter; the Kelvin sign U+212A
  (bytes E2 84 AA) becomes \<open>k\<close> and U+0130 (bytes C4 B0) becomes \<open>i\<close>. No other rune has an
  ASCII lower case; their bytes are kept here as they are, which agrees with Go wherever
  the result is compared with an ASCII string, as it is in the code, and on ASCII text.
\<close>

fun ToLower :: "string \<Rightarrow> string" where
  "ToLower (c1 # c2 # c3 # cs) =
     (if [c1, c2, c3] = [CHR 0xE2, CHR 0x84, CHR 0xAA] then CHR ''k'' # ToLower cs
      else if [c1, c2] = [CHR 0xC4, CHR 0xB0] then CHR ''i'' # ToLower (c3 # cs)
      else asciiLower c1 # ToLower (c2 # c3 # cs))"
| "ToLower [c1, c2] =
     (if [c1, c2] = [CHR 0xC4, CHR 0xB0] then [CHR ''i''] else [asciiLower c1, asciiLower c2])"
| "ToLower [c1] = [asciiLower c1]"
| "ToLower [] = []"

subsection \<open>MD5 and hexadecimal encoding\<close>

text \<open>
  \<open>md5.Sum\<close> and \<open>hex.EncodeToString\<close> belong to Go's standard library. MD5 is written out
  after RFC 1321: the message is padded to a multiple of 64 bytes, and each block of
  sixteen little-endian 32-bit words goes through 64 steps on a state of four words.
\<close>

type_synonym u32 = "32 word"

definition md5_K :: "u32 list" where
  "md5_K = [
    0xd76aa478, 0xe8c7b756, 0x242070db, 0xc1bdceee, 0xf57c0faf, 0x4787c62a, 0xa8304613, 0xfd469501,
    0x698098d8, 0x8b44f7af, 0xffff5bb1, 0x895cd7be, 0x6b901122, 0xfd987193, 0xa679438e, 0x49b40821,
    0xf61e2562, 0xc040b340, 0x265e5a51, 0xe9b6c7aa, 0xd62f105d, 0x02441453, 0xd8a1e681, 0xe7d3fbc8,
    0x21e1cde6, 0xc33707d6, 0xf4d50d87, 0x455a14ed, 0xa9e3e905, 0xfcefa3f8, 0x676f02d9, 0x8d2a4c8a,
    0xfffa3942, 0x8771f681, 0x6d9d6122, 0xfde5380c, 0xa4beea44, 0x4bdecfa9, 0xf6bb4b60, 0xbebfbc70,
    0x289b7ec6, 0xeaa127fa, 0xd4ef3085, 0x04881d05, 0xd9d4d039, 0xe6db99e5, 0x1fa27cf8, 0xc4ac5665,
    0xf4292244, 0x432aff97, 0xab9423a7, 0xfc93a039, 0x655b59c3, 0x8f0ccc92, 0xffeff47d, 0x85845dd1,
    0x6fa87e4f, 0xfe2ce6e0, 0xa3014314, 0x4e0811a1, 0xf7537e82, 0xbd3af235, 0x2ad7d2bb, 0xeb86d391]"

definition md5_S :: "nat list" where
  "md5_S = [7, 12, 17, 22, 7, 12, 17, 22, 7, 12, 17, 22, 7, 12, 17, 22,
            5, 9, 14, 20, 5, 9, 14, 20, 5, 9, 14, 20, 5, 9, 14, 20,
            4, 11, 16, 23, 4, 11, 16, 23, 4, 11, 16, 23, 4, 11, 16, 23,
            6, 10, 15, 21, 6, 10, 15, 21, 6, 10, 15, 21, 6, 10, 15, 21]"

definition rotl :: "u32 \<Rightarrow> nat \<Rightarrow> u32" where
  "rotl x n = push_bit n x OR drop_bit (32 - n) x"

definition md5_f :: "nat \<Rightarrow> u32 \<Rightarrow> u32 \<Rightarrow> u32 \<Rightarrow> u32" where
  "md5_f i b c d =
     (if i < 16 then (b AND c) OR (NOT b AND d)
      else if i < 32 then (d AND b) OR (NOT d AND c)
      else if i < 48 then b XOR c XOR d
      else c XOR (b OR NOT d))"

definition md5_g :: "nat \<Rightarrow> nat" where
  "md5_g i =
     (if i < 16 then i
      else if i < 32 then (5 * i + 1) mod 16
      else if i < 48 then (3 * i + 5) mod 16
      else (7 * i) mod 16)"

type_synonym md5_state = "u32 \<times> u32 \<times> u32 \<times> u32"

definition md5_step :: "u32 list \<Rightarrow> md5_state \<Rightarrow> nat \<Rightarrow> md5_state" where
  "md5_step m st i =
     (case st of (a, b, c, d) \<Rightarrow>
        (d, b + rotl (md5_f i b c d + a + md5_K ! i + m ! md5_g i) (md5_S ! i), b, c))"

definition md5_block :: "md5_state \<Rightarrow> u32 list \<Rightarrow> md5_state" where
  "md5_block st m =
     (case st of (a0, b0, c0, d0) \<Rightarrow>
        (case foldl (md5_step m) st [0..<64] of (a, b, c, d) \<Rightarrow>
           (a0 + a, b0 + b, c0 + c, d0 + d)))"

text \<open>The four bytes of a word, and the word of four bytes, least significant byte first.\<close>

definition word_bytes :: "u32 \<Rightarrow> u32 list" where
  "word_bytes w = map (\<lambda>k. drop_bit (8 * k) w AND 255) [0, 1, 2, 3]"

fun le_word :: "u32 list \<Rightarrow> u32" where
  "le_word [] = 0"
| "le_word (x # xs) = x + push_bit 8 (le_word xs)"

fun chunks :: "nat \<Rightarrow> nat \<Rightarrow> 'a list \<Rightarrow> 'a list list" where
  "chunks 0 n xs = []"
| "chunks (Suc k) n xs = take n xs # chunks k n (drop n xs)"

text \<open>Padding: a byte 0x80, zero bytes up to 56 modulo 64, and the length in bits in 64 bits.\<close>

definition md5_pad :: "u32 list \<Rightarrow> u32 list" where
  "md5_pad bs =
     bs @ [128] @ replicate ((119 - length bs mod 64) mod 64) 0
        @ word_bytes (of_nat (8 * length bs)) @ word_bytes (of_nat (8 * length bs div 2 ^ 32))"

definition md5_init :: md5_state where
  "md5_init = (0x67452301, 0xefcdab89, 0x98badcfe, 0x10325476)"

definition md5_Sum :: "string \<Rightarrow> u32 list" where
  "md5_Sum text =
     (let p = md5_pad (map of_char text);
          blocks = chunks (length p div 64) 64 p
      in case foldl (\<lambda>st blk. md5_block st (map le_word (chunks 16 4 blk))) md5_init blocks of
           (a, b, c, d) \<Rightarrow> concat (map word_bytes [a, b, c, d]))"

definition hexdigit :: "u32 \<Rightarrow> char" where
  "hexdigit w = ''0123456789abcdef'' ! unat w"

definition EncodeToString :: "u32 list \<Rightarrow> string" where
  "EncodeToString bs = concat (map (\<lambda>b. [hexdigit (drop_bit 4 b), hexdigit (b AND 15)]) bs)"

subsection \<open>The signature\<close>

text \<open>The first loop of \<open>SignPayload\<close> (tokenpay.go, lines 347-355): the keys that are signed.\<close>

fun signKeys :: "payload \<Rightarrow> string list" where
  "signKeys [] = []"
| "signKeys ((key, v) # rest) =
     (if EqualFold (TrimSpace key) ''Signature'' then signKeys rest
      else if isEmptyValue v then signKeys rest
      else key # signKeys rest)"

text \<open>The text that is hashed (lines 356-361), and \<open>SignPayload\<close> (lines 345-364).\<close>

definition signText :: "payload \<Rightarrow> string \<Rightarrow> string" where
  "signText payload notifySecret =
     (let keys = sort (signKeys payload);
          parts = map (\<lambda>key. key @ ''='' @ normalizeSignValue (index payload key)) keys
      in Join parts ''&'' @ TrimSpace notifySecret)"

definition SignPayload :: "payload \<Rightarrow> string \<Rightarrow> string" where
  "SignPayload payload notifySecret =
     ToLower (EncodeToString (md5_Sum (signText payload notifySecret)))"

text \<open>
  The signature as the specification words it: the keys whose value is not empty, without
  the key \<open>Signature\<close>, in ascending order, each with its value as it stands, joined with
  \<open>&\<close>, followed by the secret as it stands; of that the MD5 digest in lower-case
  hexadecimal.
\<close>

fun rawValue :: "Value \<Rightarrow> string" where
  "rawValue VNil = []"
| "rawValue (VString v) = v"
| "rawValue (VNumber v) = v"
| "rawValue (VInt v) = FormatInt v"
| "rawValue (VUint v) = FormatUint v"
| "rawValue (VBool v) = (if v then ''true'' else ''false'')"
| "rawValue (VOther marshalled printed) = marshalled"

definition claimed_signText :: "payload \<Rightarrow> string \<Rightarrow> string" where
  "claimed_signText payload secret =
     Join (map (\<lambda>key. key @ ''='' @ rawValue (index payload key))
             (sort [key \<leftarrow> map fst payload. key \<noteq> ''Signature'' \<and> rawValue (index payload key) \<noteq> []]))
       ''&'' @ secret"

definition claimed_SignPayload :: "payload \<Rightarrow> string \<Rightarrow> string" where
  "claimed_SignPayload payload secret =
     ToLower (EncodeToString (md5_Sum (claimed_signText payload secret)))"

text \<open>
  The payload of the specification's scenario, and that of the signing test
  (\<open>TestSignPayloadIgnoreSignatureAndEmpty\<close>), which adds a \<open>Signature\<close> entry.
\<close>

definition scenario_payload :: payload where
  "scenario_payload =
     [(''OutOrderId'', VString ''ORDER-1001''), (''Status'', VInt 1), (''Empty'', VString [])]"

definition test_payload :: payload where
  "test_payload = scenario_payload @ [(''Signature'', VString ''will-be-ignored'')]"

definition reordered_payload :: payload where
  "reordered_payload =
     [(''Signature'', VString ''will-be-ignored''), (''Empty'', VString '' ''),
      (''Status'', VInt 1), (''OutOrderId'', VString '' ORDER-1001 '')]"

text \<open>The sixteen words of the one MD5 block of two texts that are hashed below.\<close>

definition text_a_words :: "u32 list" where
  "text_a_words = [1333032271, 1919247474, 1329423433, 1380271186, 808464685, 1951606321, 1937077345, 1702048061, 1952805475, 128, 0, 0, 0, 0, 288, 0]"

definition text_b_words :: "u32 list" where
  "text_b_words = [1333032271, 1919247474, 1329423433, 1380271186, 808464685, 1951606321, 1937077345, 1931489597, 1701995365, 32884, 0, 0, 0, 0, 296, 0]"

section \<open>The callback of the token-based provider\<close>

text \<open>
  \<open>fmt.Sprintf "%v"\<close> of a value, as \<open>pickString\<close> uses it for a value that is neither a
  string nor a \<open>json.Number\<close> nor nil.
\<close>

fun Sprintf_v :: "Value \<Rightarrow> string" where
  "Sprintf_v VNil = ''<nil>''"
| "Sprintf_v (VString v) = v"
| "Sprintf_v (VNumber v) = v"
| "Sprintf_v (VInt v) = FormatInt v"
| "Sprintf_v (VUint v) = FormatUint v"
| "Sprintf_v (VBool v) = (if v then ''true'' else ''false'')"
| "Sprintf_v (VOther marshalled printed) = printed"

text \<open>\<open>pickString\<close> (tokenpay.go, lines 426-441).\<close>

fun pickString :: "payload \<Rightarrow> string list \<Rightarrow> string" where
  "pickString data [] = []"
| "pickString data (key # keys) =
     (case map_of data key of
        None \<Rightarrow> pickString data keys
      | Some (VString text) \<Rightarrow> text
      | Some (VNumber num) \<Rightarrow> num
      | Some VNil \<Rightarrow> pickString data keys
      | Some val \<Rightarrow> Sprintf_v val)"

text \<open>
  \<open>strconv.ParseInt s 10 64\<close>, which is also what \<open>strconv.Atoi\<close> and \<open>json.Number.Int64\<close>
  compute: an optional sign and decimal digits, the value within 64 bits signed.
\<close>

definition ParseInt :: "string \<Rightarrow> int option" where
  "ParseInt s =
     (case s of
        [] \<Rightarrow> None
      | c # cs \<Rightarrow>
          let neg = (c = CHR ''-'');
              digits = (if c = CHR ''+'' \<or> c = CHR ''-'' then cs else s)
          in case ParseUint digits of
               None \<Rightarrow> None
             | Some un \<Rightarrow>
                 if \<not> neg \<and> un \<ge> 2 ^ 63 then None
                 else if neg \<and> un > 2 ^ 63 then None
                 else Some (if neg then - int un else int un))"

text \<open>The conversion \<open>int(v)\<close> of an unsigned 64-bit value: it wraps around.\<close>

definition int_of_uint64 :: "nat \<Rightarrow> int" where
  "int_of_uint64 v = (if v mod 2 ^ 64 < 2 ^ 63 then int (v mod 2 ^ 64) else int (v mod 2 ^ 64) - 2 ^ 64)"

text \<open>\<open>pickInt\<close> (lines 443-485).\<close>

fun pickInt :: "payload \<Rightarrow> string list \<Rightarrow> int" where
  "pickInt data [] = 0"
| "pickInt data (key # keys) =
     (case map_of data key of
        None \<Rightarrow> pickInt data keys
      | Some VNil \<Rightarrow> pickInt data keys
      | Some (VInt v) \<Rightarrow> v
      | Some (VUint v) \<Rightarrow> int_of_uint64 v
      | Some (VNumber v) \<Rightarrow>
          (case ParseInt v of Some parsed \<Rightarrow> parsed | None \<Rightarrow> pickInt data keys)
      | Some (VString v) \<Rightarrow>
          (case ParseInt (TrimSpace v) of Some parsed \<Rightarrow> parsed | None \<Rightarrow> pickInt data keys)
      | Some val \<Rightarrow> pickInt data keys)"

datatype tokenpay_error =
    ErrConfigInvalid
  | ErrRequestFailed
  | ErrResponseInvalid
  | ErrSignatureInvalid

text \<open>
  \<open>CallbackData\<close>, with the fields that decide which payment a callback is for and how it
  is acknowledged. The amounts, currencies and the pay time are further strings picked
  from \<open>Raw\<close>; they reach \<open>PaymentService.HandleCallback\<close> only, together with \<open>Raw\<close> itself.
\<close>

record CallbackData =
  Raw :: payload
  Signature :: string
  TokenOrderID :: string
  OutOrderID :: string
  Callback_Status :: int
  PassThroughInfo :: string

text \<open>
  \<open>ParseCallback\<close> (lines 215-243). The JSON decoder of the standard library is a
  parameter: \<open>decode body\<close> is the object the body denotes (numbers kept as \<open>json.Number\<close>),
  or \<open>None\<close> when the body is not a JSON object. Every error is \<open>ErrResponseInvalid\<close>.
\<close>

definition ParseCallback :: "(string \<Rightarrow> payload option) \<Rightarrow> string \<Rightarrow> tokenpay_error + CallbackData" where
  "ParseCallback decode body =
     (if body = [] then Inl ErrResponseInvalid
      else case decode body of
        None \<Rightarrow> Inl ErrResponseInvalid
      | Some payload \<Rightarrow>
          if payload = [] then Inl ErrResponseInvalid
          else Inr \<lparr>Raw = payload,
                    Signature = TrimSpace (pickString payload [''Signature'', ''signature'']),
                    TokenOrderID = TrimSpace (pickString payload [''Id'', ''id'']),
                    OutOrderID = TrimSpace (pickString payload [''OutOrderId'', ''out_order_id'']),
                    Callback_Status = pickInt payload [''Status'', ''status''],
                    PassThroughInfo =
                      TrimSpace (pickString payload [''PassThroughInfo'', ''pass_through_info''])\<rparr>)"

text \<open>
  \<open>VerifyCallback\<close> (lines 245-257); \<open>None\<close> is the nil error. \<open>strings.EqualFold\<close> is
  symmetric; the expected signature, which is ASCII, stands on the right here.
\<close>

definition VerifyCallback :: "CallbackData option \<Rightarrow> string \<Rightarrow> tokenpay_error option" where
  "VerifyCallback data notifySecret =
     (case data of
        None \<Rightarrow> Some ErrConfigInvalid
      | Some d \<Rightarrow>
          if TrimSpace notifySecret = [] then Some ErrConfigInvalid
          else
            let expected = SignPayload (Raw d) notifySecret
            in if \<not> EqualFold (TrimSpace (Signature d)) expected then Some ErrSignatureInvalid
               else None)"

text \<open>
  The configuration of a channel. \<open>ParseConfig\<close> (lines 81-95) marshals the stored map and
  unmarshals it into the struct; that round trip through the standard library is a
  parameter (\<open>None\<close> when it fails), \<open>normalize\<close> (lines 97-107) and \<open>ValidateConfig\<close>
  (lines 109-123) are written out. Upper case is taken on ASCII letters; nothing below
  depends on a currency code.
\<close>

record Config =
  GatewayURL :: string
  NotifySecret :: string
  Currency :: string
  NotifyURL :: string
  RedirectURL :: string
  BaseCurrency :: string

text \<open>
  \<open>strings.ToUpper\<close>, applied by \<open>normalize\<close> to the two currency codes: ASCII letters are
  mapped; letters beyond ASCII, which Go maps too, are kept as they are.
\<close>

definition asciiUpper :: "char \<Rightarrow> char" where
  "asciiUpper c =
     (case map_of (zip ''abcdefghijklmnopqrstuvwxyz'' ''ABCDEFGHIJKLMNOPQRSTUVWXYZ'') c of
        None \<Rightarrow> c
      | Some u \<Rightarrow> u)"

definition ToUpper :: "string \<Rightarrow> string" where
  "ToUpper s = map asciiUpper s"

definition TrimRightSlash :: "string \<Rightarrow> string" where
  "TrimRightSlash s = rev (dropWhile (\<lambda>c. c = CHR ''/'') (rev s))"

definition SiteCurrencyDefault :: string where
  "SiteCurrencyDefault = ''CNY''"

definition DefaultCurrency :: string where
  "DefaultCurrency = ''USDT''"

definition normalize :: "Config \<Rightarrow> Config" where
  "normalize c =
     (let c1 = c\<lparr>GatewayURL := TrimRightSlash (TrimSpace (GatewayURL c)),
                 NotifySecret := TrimSpace (NotifySecret c),
                 Currency := ToUpper (TrimSpace (Currency c)),
                 NotifyURL := TrimSpace (NotifyURL c),
                 RedirectURL := TrimSpace (RedirectURL c),
                 BaseCurrency := ToUpper (TrimSpace (BaseCurrency c))\<rparr>
      in if BaseCurrency c1 = [] then c1\<lparr>BaseCurrency := SiteCurrencyDefault\<rparr> else c1)"

definition ParseConfig :: "(payload \<Rightarrow> Config option) \<Rightarrow> payload option \<Rightarrow> tokenpay_error + Config" where
  "ParseConfig unmarshal raw =
     (case raw of
        None \<Rightarrow> Inl ErrConfigInvalid
      | Some m \<Rightarrow>
          (case unmarshal m of
             None \<Rightarrow> Inl ErrConfigInvalid
           | Some cfg \<Rightarrow> Inr (normalize cfg)))"

definition ValidateConfig :: "Config option \<Rightarrow> tokenpay_error option" where
  "ValidateConfig cfg =
     (case cfg of
        None \<Rightarrow> Some ErrConfigInvalid
      | Some c \<Rightarrow>
          if TrimSpace (GatewayURL c) = [] then Some ErrConfigInvalid
          else if TrimSpace (NotifySecret c) = [] then Some ErrConfigInvalid
          else if TrimSpace (Currency c) = [] then Some ErrConfigInvalid
          else None)"

text \<open>
  The handler's collaborators. A repository call returns a row (or nil) and whether it
  returned an error; what \<open>GetLatestByProviderRef\<close> takes for the latest payment with a
  provider reference is the repository's business, which is not among the sources. The two
  acknowledgement tokens and the provider key are constants of package \<open>constants\<close>.
\<close>

record PaymentChannel =
  Channel_ID :: nat
  Channel_ProviderType :: string
  ConfigJSON :: "payload option"

record PaymentCallbackInput =
  Input_PaymentID :: nat
  Input_OrderNo :: string
  Input_ChannelID :: nat
  Input_Status :: PaymentStatus
  Input_ProviderRef :: string
  Input_Payload :: payload

record Handler =
  GetByID :: "nat \<Rightarrow> Payment option \<times> bool"
  GetLatestByProviderRef :: "string \<Rightarrow> Payment option \<times> bool"
  Channel_GetByID :: "nat \<Rightarrow> PaymentChannel option \<times> bool"
  HandleCallback :: "PaymentCallbackInput \<Rightarrow> Payment option \<times> bool"

record Json =
  decode :: "string \<Rightarrow> payload option"
  unmarshal :: "payload \<Rightarrow> Config option"

datatype token = TokenPayCallbackSuccess | TokenPayCallbackFail

definition PaymentProviderTokenpay :: string where
  "PaymentProviderTokenpay = ''tokenpay''"

text \<open>
  What a call of the handler does: its boolean result (the callback was this provider's),
  the token written to the response, if any, and the input handed to
  \<open>PaymentService.HandleCallback\<close>, if the call got that far.
\<close>

record Outcome =
  handled :: bool
  response :: "token option"
  forwarded :: "PaymentCallbackInput option"

definition not_matched :: Outcome where
  "not_matched = \<lparr>handled = False, response = None, forwarded = None\<rparr>"

definition failed :: Outcome where
  "failed = \<lparr>handled = True, response = Some TokenPayCallbackFail, forwarded = None\<rparr>"

text \<open>
  Lines 152-172 of \<open>HandleTokenPayCallback\<close>: the payment the callback is for. \<open>None\<close> is the
  case in which the handler answers with the failure token.
\<close>

definition resolvePayment :: "Handler \<Rightarrow> CallbackData \<Rightarrow> Payment option" where
  "resolvePayment h data =
     (let paymentID = ParsePassThroughPaymentID (PassThroughInfo data);
          payment = (if paymentID > 0 then fst (GetByID h paymentID) else None)
      in case payment of
           Some p \<Rightarrow> Some p
         | None \<Rightarrow>
             (case GetLatestByProviderRef h (TokenOrderID data) of
                (p, err) \<Rightarrow> if err then None else p))"

text \<open>
  Lines 174-239: from the channel of the resolved payment to the acknowledgement. Should
  \<open>HandleCallback\<close> return neither a payment nor an error, the code would dereference nil
  when it logs the new status (line 235); here that case is answered like a payment.
\<close>

definition settle :: "Json \<Rightarrow> Handler \<Rightarrow> CallbackData \<Rightarrow> Payment \<Rightarrow> Outcome" where
  "settle json h data payment =
     (case Channel_GetByID h (ChannelID payment) of
        (None, err) \<Rightarrow> failed
      | (Some channel, err) \<Rightarrow>
          if err then failed
          else if ToLower (TrimSpace (Channel_ProviderType channel)) \<noteq> PaymentProviderTokenpay
            then failed
          else case ParseConfig (unmarshal json) (ConfigJSON channel) of
            Inl e \<Rightarrow> failed
          | Inr cfg0 \<Rightarrow>
              let cfg = (if TrimSpace (Currency cfg0) = [] then cfg0\<lparr>Currency := DefaultCurrency\<rparr>
                         else cfg0)
              in if ValidateConfig (Some cfg) \<noteq> None then failed
                 else if VerifyCallback (Some data) (NotifySecret cfg) \<noteq> None then failed
                 else
                   let callbackInput =
                         \<lparr>Input_PaymentID = ID payment,
                          Input_OrderNo = TrimSpace (OutOrderID data),
                          Input_ChannelID = Channel_ID channel,
                          Input_Status = ToPaymentStatus (Callback_Status data),
                          Input_ProviderRef = TrimSpace (TokenOrderID data),
                          Input_Payload = Raw data\<rparr>
                   in case HandleCallback h callbackInput of
                        (updated, err) \<Rightarrow>
                          if err
                          then \<lparr>handled = True, response = Some TokenPayCallbackFail,
                                forwarded = Some callbackInput\<rparr>
                          else \<lparr>handled = True, response = Some TokenPayCallbackSuccess,
                                forwarded = Some callbackInput\<rparr>)"

text \<open>
  \<open>HandleTokenPayCallback\<close> (lines 126-239 of the handler file). The body is \<open>None\<close> when
  reading the request fails.
\<close>

definition HandleTokenPayCallback :: "Json \<Rightarrow> Handler \<Rightarrow> string option \<Rightarrow> Outcome" where
  "HandleTokenPayCallback json h request_body =
     (case request_body of
        None \<Rightarrow> not_matched
      | Some body \<Rightarrow>
          (case ParseCallback (decode json) body of
             Inl e \<Rightarrow> not_matched
           | Inr data \<Rightarrow>
               if TrimSpace (Signature data) = [] \<or> TrimSpace (OutOrderID data) = []
                  \<or> TrimSpace (TokenOrderID data) = []
               then not_matched
               else case resolvePayment h data of
                      None \<Rightarrow> failed
                    | Some payment \<Rightarrow> settle json h data payment))"

text \<open>
  A small world for the handler: payment 7 and payment 9, both on channel 1, which is a
  channel of the token-based provider with the secret \<open>notify-secret\<close>; payment 9 is the
  latest payment with the provider reference \<open>tp-abc-1\<close>. The decoder is given by the one
  body it has to read, a callback for order \<open>ORDER-2001\<close> with the signature \<open>bad\<close> (the
  double quotes of the JSON text are left out of the body's name here).
\<close>

definition demo_payment :: "nat \<Rightarrow> Payment" where
  "demo_payment n =
     \<lparr>ID = n, OrderID = 5, ChannelID = 1, ProviderType = ''tokenpay'',
      ProviderRef = ''tp-abc-1'', Amount = 15, Status = PaymentStatusPending,
      PaidAt = None, ExpiredAt = None, UpdatedAt = 1000\<rparr>"

definition demo_config :: payload where
  "demo_config =
     [(''gateway_url'', VString ''https://pay.example.com/''),
      (''notify_secret'', VString ''notify-secret'')]"

definition demo_cfg :: Config where
  "demo_cfg =
     \<lparr>GatewayURL = ''https://pay.example.com'', NotifySecret = ''notify-secret'',
      Currency = [], NotifyURL = [], RedirectURL = [], BaseCurrency = ''CNY''\<rparr>"

definition demo_channel :: PaymentChannel where
  "demo_channel =
     \<lparr>Channel_ID = 1, Channel_ProviderType = ''TokenPay'', ConfigJSON = Some demo_config\<rparr>"

definition demo_handler :: Handler where
  "demo_handler =
     \<lparr>GetByID = (\<lambda>n. if n = 7 then (Some (demo_payment 7), False) else (None, True)),
      GetLatestByProviderRef =
        (\<lambda>r. if r = ''tp-abc-1'' then (Some (demo_payment 9), False) else (None, True)),
      Channel_GetByID = (\<lambda>n. if n = 1 then (Some demo_channel, False) else (None, True)),
      HandleCallback = (\<lambda>input. (Some (demo_payment (Input_PaymentID input)), False))\<rparr>"

definition demo_body :: string where
  "demo_body = ''{Id:tp-abc-1,OutOrderId:ORDER-2001,Status:1,Signature:bad}''"

definition demo_payload :: payload where
  "demo_payload =
     [(''Id'', VString ''tp-abc-1''), (''OutOrderId'', VString ''ORDER-2001''),
      (''Status'', VNumber ''1''), (''Signature'', VString ''bad'')]"

definition demo_json :: Json where
  "demo_json =
     \<lparr>decode = (\<lambda>body. if body = demo_body then Some demo_payload else None),
      unmarshal = (\<lambda>m. Some \<lparr>GatewayURL = pickString m [''gateway_url''],
                               NotifySecret = pickString m [''notify_secret''],
                               Currency = pickString m [''currency''],
                               NotifyURL = pickString m [''notify_url''],
                               RedirectURL = pickString m [''redirect_url''],
                               BaseCurrency = pickString m [''base_currency'']\<rparr>)\<rparr>"

definition demo_data :: "string \<Rightarrow> CallbackData" where
  "demo_data passThrough =
     \<lparr>Raw = demo_payload, Signature = ''bad'', TokenOrderID = ''tp-abc-1'',
      OutOrderID = ''ORDER-2001'', Callback_Status = 1, PassThroughInfo = passThrough\<rparr>"

definition text_c_words :: "u32 list" where
  "text_c_words = [1950180425, 1650535792, 640757091, 1333032271, 1919247474, 1329423433, 1380271186, 808464941, 1951606321, 1937077345, 1869492541, 2036754804, 1667593005, 2155111794, 440, 0]"

section \<open>Paying an order from the wallet\<close>

text \<open>
  Modelled from the spec: \<open>PaymentService.CreatePayment\<close> and the wallet ledger are not among
  the sources; only the service test \<open>TestCreatePaymentWalletFullAmountCreatesPaymentRecord\<close>
  is. The definitions follow sections 4.2 and 4.4 of the specification. Amounts are in
  minor units. The state holds the order, the balance of its owner's wallet, the wallet's
  transaction log, the payment rows and the number of calls made to a gateway adapter.
\<close>

record Order =
  Order_ID :: nat
  Order_TotalAmount :: int
  Order_WalletPaidAmount :: int
  Order_OnlinePaidAmount :: int
  Order_Paid :: bool
  Order_PaidAt :: "nat option"

record Checkout =
  order :: Order
  balance :: int
  wallet_log :: "int list"
  payment_rows :: "Payment list"
  gateway_calls :: nat

datatype wallet_error = InsufficientFunds

text \<open>
  \<open>debit\<close>: fails if the amount exceeds the balance; otherwise decrements the balance and
  appends a transaction record.
\<close>

definition debit :: "int \<Rightarrow> Checkout \<Rightarrow> wallet_error + Checkout" where
  "debit amount s =
     (if amount > balance s then Inl InsufficientFunds
      else Inr (s\<lparr>balance := balance s - amount, wallet_log := wallet_log s @ [- amount]\<rparr>))"

definition PaymentProviderWallet :: string where
  "PaymentProviderWallet = ''wallet''"

text \<open>
  \<open>createPayment\<close>: the outstanding due amount of the order; with \<open>useWalletBalance\<close> a debit
  of the smaller of balance and due; when nothing remains due, a payment row of the wallet
  provider in status Success with paid-at set, and the order marked paid, without a
  gateway call; otherwise a Pending payment bound to the channel, for which the gateway
  adapter is called.
\<close>

definition outstanding :: "Order \<Rightarrow> int" where
  "outstanding ord = Order_TotalAmount ord - Order_WalletPaidAmount ord"

definition CreatePayment :: "nat \<Rightarrow> nat \<Rightarrow> bool \<Rightarrow> Checkout \<Rightarrow> wallet_error + Checkout" where
  "CreatePayment t channelID useWalletBalance s =
     (let due = outstanding (order s);
          amount = (if useWalletBalance then min (balance s) due else 0)
      in case (if amount > 0 then debit amount s else Inr s) of
           Inl e \<Rightarrow> Inl e
         | Inr s1 \<Rightarrow>
             let remaining = due - amount;
                 ord = (order s1)\<lparr>Order_WalletPaidAmount := Order_WalletPaidAmount (order s1) + amount,
                                   Order_OnlinePaidAmount := remaining\<rparr>
             in if remaining = 0
                then Inr (s1\<lparr>order := ord\<lparr>Order_Paid := True, Order_PaidAt := Some t\<rparr>,
                              payment_rows := payment_rows s1 @
                                [\<lparr>ID = Suc (length (payment_rows s1)), OrderID = Order_ID ord,
                                  ChannelID = 0, ProviderType = PaymentProviderWallet,
                                  ProviderRef = [], Amount = amount,
                                  Status = PaymentStatusSuccess, PaidAt = Some t,
                                  ExpiredAt = None, UpdatedAt = t\<rparr>]\<rparr>)
                else Inr (s1\<lparr>order := ord,
                              payment_rows := payment_rows s1 @
                                [\<lparr>ID = Suc (length (payment_rows s1)), OrderID = Order_ID ord,
                                  ChannelID = channelID, ProviderType = [],
                                  ProviderRef = [], Amount = remaining,
                                  Status = PaymentStatusPending, PaidAt = None,
                                  ExpiredAt = None, UpdatedAt = t\<rparr>],
                              gateway_calls := Suc (gateway_calls s1)\<rparr>))"

text \<open>The state the service test sets up: an order of 50 and a wallet holding 100.\<close>

definition wallet_test_state :: Checkout where
  "wallet_test_state =
     \<lparr>order = \<lparr>Order_ID = 1, Order_TotalAmount = 5000, Order_WalletPaidAmount = 0,
                Order_OnlinePaidAmount = 5000, Order_Paid = False, Order_PaidAt = None\<rparr>,
      balance = 10000, wallet_log = [], payment_rows = [], gateway_calls = 0\<rparr>"

section \<open>The stock reconciler\<close>

text \<open>
  The fields of \<open>models.ProductSKU\<close> and \<open>models.Product\<close> that the tests of the stock
  reconciler set and read. Prices are in minor units.
\<close>

record ProductSKU =
  SKU_ID :: nat
  SKU_ProductID :: nat
  SKUCode :: string
  PriceAmount :: int
  ManualStockTotal :: int
  IsActive :: bool
  SortOrder :: int
  AutoStockAvailable :: nat
  AutoStockLocked :: nat
  AutoStockSold :: nat
  AutoStockTotal :: nat

definition DefaultSKUCode :: string where
  "DefaultSKUCode = ''DEFAULT''"

subsection \<open>One active SKU\<close>

text \<open>
  Modelled from the spec: \<open>syncSingleProductSKU\<close> and the SKU repository are not among the
  sources; only the tests \<open>TestSyncSingleProductSKU_MultipleRowsKeepsSingleActive\<close> and
  \<open>TestSyncSingleProductSKU_NoActivePrefersDefaultCode\<close> are. The definitions follow
  section 4.3 of the specification: the target is the first of the currently active SKUs,
  else the SKU bearing the default code, else the first of all SKUs of the product; it
  gets the price and the stock and is made active, every other SKU of the product is
  deactivated. Which of two SKUs comes first is a parameter, \<open>precedes\<close>. The specification
  ranks by ascending (sortOrder, id); the first test expects otherwise, and ranking by
  descending sortOrder, then ascending id, meets both tests. A product without any SKU row
  is left as it is (the specification does not say what happens then), and so is the
  parameter \<open>active\<close>, which the specification names and does not use.
\<close>

fun best :: "('a \<Rightarrow> 'a \<Rightarrow> bool) \<Rightarrow> 'a list \<Rightarrow> 'a option" where
  "best precedes [] = None"
| "best precedes (x # xs) =
     (case best precedes xs of
        None \<Rightarrow> Some x
      | Some y \<Rightarrow> if precedes x y then Some x else Some y)"

definition pickTarget :: "(ProductSKU \<Rightarrow> ProductSKU \<Rightarrow> bool) \<Rightarrow> ProductSKU list \<Rightarrow> ProductSKU option" where
  "pickTarget precedes skus =
     (case best precedes (filter IsActive skus) of
        Some t \<Rightarrow> Some t
      | None \<Rightarrow>
          (case find (\<lambda>s. SKUCode s = DefaultSKUCode) skus of
             Some t \<Rightarrow> Some t
           | None \<Rightarrow> best precedes skus))"

definition ListByProduct :: "ProductSKU list \<Rightarrow> nat \<Rightarrow> ProductSKU list" where
  "ListByProduct table productID = filter (\<lambda>s. SKU_ProductID s = productID) table"

definition syncSingleProductSKU ::
    "(ProductSKU \<Rightarrow> ProductSKU \<Rightarrow> bool) \<Rightarrow> ProductSKU list \<Rightarrow> nat \<Rightarrow> int \<Rightarrow> int \<Rightarrow> bool
      \<Rightarrow> ProductSKU list" where
  "syncSingleProductSKU precedes table productID targetPrice targetStock active =
     (case pickTarget precedes (ListByProduct table productID) of
        None \<Rightarrow> table
      | Some t \<Rightarrow>
          map (\<lambda>s. if SKU_ProductID s \<noteq> productID then s
                    else if SKU_ID s = SKU_ID t
                      then s\<lparr>PriceAmount := targetPrice, ManualStockTotal := targetStock,
                             IsActive := True\<rparr>
                    else s\<lparr>IsActive := False\<rparr>)
            table)"

text \<open>The two rankings: as the specification words it, and as the tests are met.\<close>

definition lowest_sort_order_first :: "ProductSKU \<Rightarrow> ProductSKU \<Rightarrow> bool" where
  "lowest_sort_order_first a b \<longleftrightarrow>
     SortOrder a < SortOrder b \<or> (SortOrder a = SortOrder b \<and> SKU_ID a \<le> SKU_ID b)"

definition highest_sort_order_first :: "ProductSKU \<Rightarrow> ProductSKU \<Rightarrow> bool" where
  "highest_sort_order_first a b \<longleftrightarrow>
     SortOrder a > SortOrder b \<or> (SortOrder a = SortOrder b \<and> SKU_ID a \<le> SKU_ID b)"

text \<open>
  The rows of the two tests, numbered in the order in which the tests create them, and
  what each test asserts of the rows after the call: every active row is the expected one
  and has the target price and stock, and there is exactly one active row.
\<close>

definition sku :: "nat \<Rightarrow> nat \<Rightarrow> string \<Rightarrow> int \<Rightarrow> int \<Rightarrow> bool \<Rightarrow> int \<Rightarrow> ProductSKU" where
  "sku i p code price stock act ord =
     \<lparr>SKU_ID = i, SKU_ProductID = p, SKUCode = code, PriceAmount = price,
      ManualStockTotal = stock, IsActive = act, SortOrder = ord,
      AutoStockAvailable = 0, AutoStockLocked = 0, AutoStockSold = 0, AutoStockTotal = 0\<rparr>"

definition multiple_rows :: "ProductSKU list" where
  "multiple_rows =
     [sku 1 2001 DefaultSKUCode 1000 9 False 0,
      sku 2 2001 ''A'' 2000 2 True 2,
      sku 3 2001 ''B'' 3000 4 True 1]"

definition no_active_rows :: "ProductSKU list" where
  "no_active_rows =
     [sku 1 2002 ''A'' 1000 3 False 1,
      sku 2 2002 DefaultSKUCode 2000 8 False 0]"

definition test_asserts :: "nat \<Rightarrow> int \<Rightarrow> int \<Rightarrow> ProductSKU list \<Rightarrow> bool" where
  "test_asserts expectedID targetPrice targetStock skus \<longleftrightarrow>
     list_all (\<lambda>s. SKU_ID s = expectedID \<and> PriceAmount s = targetPrice
                   \<and> ManualStockTotal s = targetStock)
       (filter IsActive skus)
     \<and> length (filter IsActive skus) = 1"

subsection \<open>Stock counters\<close>





















section \<open>Status mappings\<close>

text \<open>
  C4, as amended. Every status mapping returns one of Pending, Success, Failed, Expired,
  and a code it does not recognise maps to Pending, never to Success or Failed: for the
  token-based provider 1 maps to Success, 2 maps to Expired and every other integer maps
  to Pending; the second token provider maps every integer other than its success and
  expired codes to Pending; the card provider maps an unrecognised payment-intent status
  and an unrecognised pair of payment and session status to Pending. The exception is the
  card provider's mapping of event types: it returns a canonical status together with
  \<open>true\<close>, or, for an event type it does not recognise, no status together with \<open>false\<close>.
\<close>

theorem mapStatus_canonical:
  "ToPaymentStatus status \<in> CanonicalStatus
   \<and> ToPaymentStatus 1 = PaymentStatusSuccess
   \<and> ToPaymentStatus 2 = PaymentStatusExpired
   \<and> (status \<noteq> 1 \<and> status \<noteq> 2 \<longrightarrow>
        ToPaymentStatus status = PaymentStatusPending
        \<and> ToPaymentStatus status \<noteq> PaymentStatusSuccess
        \<and> ToPaymentStatus status \<noteq> PaymentStatusFailed)
   \<and> epusdt_ToPaymentStatus codes status \<in> CanonicalStatus
   \<and> (status \<noteq> StatusSuccess codes \<and> status \<noteq> StatusExpired codes \<longrightarrow>
        epusdt_ToPaymentStatus codes status = PaymentStatusPending)
   \<and> mapPaymentIntentStatus intentStatus \<in> CanonicalStatus
   \<and> mapPaymentIntentStatus (OtherPIStatus unknownStatus) = PaymentStatusPending
   \<and> mapCheckoutSessionStatus paymentStatus sessionStatus \<in> CanonicalStatus
   \<and> mapCheckoutSessionStatus (OtherPaymentStatus unknownPayment)
        (OtherSessionStatus unknownSession) = PaymentStatusPending
   \<and> (mapEventTypeStatus not_mapped eventType = (None, False)
       \<or> (\<exists>st. st \<in> CanonicalStatus
             \<and> mapEventTypeStatus not_mapped eventType = (Some st, True)))
   \<and> mapEventTypeStatus not_mapped (OtherEvent unknownEvent) = (None, False)"
proof -
  have tokenpay: "ToPaymentStatus status \<in> CanonicalStatus"
    "ToPaymentStatus 1 = PaymentStatusSuccess" "ToPaymentStatus 2 = PaymentStatusExpired"
    "status \<noteq> 1 \<and> status \<noteq> 2 \<longrightarrow>
       ToPaymentStatus status = PaymentStatusPending
       \<and> ToPaymentStatus status \<noteq> PaymentStatusSuccess
       \<and> ToPaymentStatus status \<noteq> PaymentStatusFailed"
    by (simp_all add: ToPaymentStatus_def CanonicalStatus_def)
  have epusdt: "epusdt_ToPaymentStatus codes status \<in> CanonicalStatus"
    "status \<noteq> StatusSuccess codes \<and> status \<noteq> StatusExpired codes \<longrightarrow>
       epusdt_ToPaymentStatus codes status = PaymentStatusPending"
    by (simp_all add: epusdt_ToPaymentStatus_def CanonicalStatus_def)
  have intent: "mapPaymentIntentStatus intentStatus \<in> CanonicalStatus"
    "mapPaymentIntentStatus (OtherPIStatus unknownStatus) = PaymentStatusPending"
    by (cases intentStatus; simp add: CanonicalStatus_def) simp
  have session: "mapCheckoutSessionStatus paymentStatus sessionStatus \<in> CanonicalStatus"
    "mapCheckoutSessionStatus (OtherPaymentStatus unknownPayment)
       (OtherSessionStatus unknownSession) = PaymentStatusPending"
    by (simp_all add: mapCheckoutSessionStatus_def CanonicalStatus_def)
  have event: "mapEventTypeStatus not_mapped eventType = (None, False)
       \<or> (\<exists>st. st \<in> CanonicalStatus
             \<and> mapEventTypeStatus not_mapped eventType = (Some st, True))"
    by (cases eventType; simp add: CanonicalStatus_def not_mapped_def)
  have other: "mapEventTypeStatus not_mapped (OtherEvent unknownEvent) = (None, False)"
    by (simp add: not_mapped_def)
  show ?thesis
    by (intro conjI) (fact tokenpay epusdt intent session event other)+
qed

theorem mapStatus_canonical_witness:
  "ToPaymentStatus 999 = PaymentStatusPending
   \<and> epusdt_ToPaymentStatus example_codes 999 = PaymentStatusPending
   \<and> mapPaymentIntentStatus (OtherPIStatus ''unknown'') = PaymentStatusPending
   \<and> mapCheckoutSessionStatus (OtherPaymentStatus ''unpaid'') (OtherSessionStatus ''open'')
       = PaymentStatusPending
   \<and> mapEventTypeStatus not_mapped (OtherEvent ''unknown.event'') = (None, False)"
  using mapStatus_canonical
    [where status = 999 and codes = example_codes and unknownStatus = "''unknown''"
       and unknownPayment = "''unpaid''" and unknownSession = "''open''"
       and unknownEvent = "''unknown.event''"]
  by (simp add: example_codes_def)

text \<open>
  The claim as worded fails at the last row of \<open>TestMapEventTypeStatus\<close>: for the event type
  \<open>unknown.event\<close> the test expects no status and \<open>false\<close>, and a mapping that defaults to
  Pending does not pass it.
\<close>

theorem mapEventTypeStatus_unknown_counterexample:
  "TestMapEventTypeStatus (mapEventTypeStatus not_mapped)
   \<and> fst (mapEventTypeStatus not_mapped (OtherEvent ''unknown.event''))
       \<noteq> Some PaymentStatusPending
   \<and> mapEventTypeStatus defaults_to_pending (OtherEvent ''unknown.event'')
       = (Some PaymentStatusPending, True)
   \<and> \<not> TestMapEventTypeStatus (mapEventTypeStatus defaults_to_pending)"
  by (simp add: TestMapEventTypeStatus_def not_mapped_def defaults_to_pending_def)
section \<open>Expiry guard\<close>

lemma find_update_row:
  "find (\<lambda>x. f x = k) xs = Some r \<Longrightarrow> f r' = k \<Longrightarrow> g r' = g r \<Longrightarrow>
   find (\<lambda>x. f x = k) (map (\<lambda>q. if g q = g r' then r' else q) xs) = Some r'"
  by (induction xs) (auto split: if_splits)

lemma find_key: "find (\<lambda>x. f x = k) xs = Some r \<Longrightarrow> f r = k"
  by (induction xs) (auto split: if_splits)

lemma expireTx_guard:
  assumes "First_payment db paymentID = Some payment"
    and "OrderID payment \<noteq> 0
         \<or> Status payment \<in> {PaymentStatusSuccess, PaymentStatusFailed, PaymentStatusExpired}
         \<or> (\<exists>r. GetRechargeOrderByPaymentIDForUpdate db (ID payment) = Some r
                \<and> Recharge_Status r \<noteq> WalletRechargeStatusPending)"
  shows "snd (expireTx env paymentID db) = db"
  using assms
  by (auto simp: expireTx_def canExpireWalletRechargePayment_def split: option.splits)

text \<open>
  C1, as amended. When the payment row is found and the payment has an owning order, or
  its status is Success, Failed or Expired, or its recharge order is found in a status
  other than Pending, then \<open>ExpireWalletRechargePayment\<close> leaves the database as it was (every
  row of both tables, hence status, paid-at, expired-at and the recharge status), whatever
  else happens. With the service wired, a non-zero identifier and no failing query, it
  returns that payment as stored when the payment has an owning order or its recharge
  order exists, and it returns \<open>ErrWalletRechargeNotFound\<close> when the payment has no order and
  no recharge order: the recharge order is fetched (lines 39-45) before the guard is
  consulted (line 46).
\<close>

theorem ExpireWalletRechargePayment_guard:
  assumes "First_payment db paymentID = Some payment"
    and "OrderID payment \<noteq> 0
         \<or> Status payment \<in> {PaymentStatusSuccess, PaymentStatusFailed, PaymentStatusExpired}
         \<or> (\<exists>r. GetRechargeOrderByPaymentIDForUpdate db (ID payment) = Some r
                \<and> Recharge_Status r \<noteq> WalletRechargeStatusPending)"
  shows "snd (ExpireWalletRechargePayment s env db paymentID) = db
     \<and> (paymentID \<noteq> 0 \<and> s = wired \<and> \<not> payment_query_err env
          \<and> (OrderID payment \<noteq> 0
               \<or> (\<not> recharge_query_err env
                   \<and> GetRechargeOrderByPaymentIDForUpdate db (ID payment) \<noteq> None))
          \<longrightarrow> ExpireWalletRechargePayment s env db paymentID = (Inr payment, db))
     \<and> (paymentID \<noteq> 0 \<and> s = wired \<and> \<not> payment_query_err env
          \<and> OrderID payment = 0 \<and> \<not> recharge_query_err env
          \<and> GetRechargeOrderByPaymentIDForUpdate db (ID payment) = None
          \<longrightarrow> ExpireWalletRechargePayment s env db paymentID
                = (Inl ErrWalletRechargeNotFound, db))"
proof -
  have unchanged: "snd (Transaction (expireTx env paymentID) db) = db"
    using expireTx_guard [OF assms, of env]
    by (cases "expireTx env paymentID db") (auto simp: Transaction_def split: sum.splits)
  have frame: "snd (ExpireWalletRechargePayment s env db paymentID) = db"
    using unchanged by (simp add: ExpireWalletRechargePayment_def split: option.splits)
  have ret: "ExpireWalletRechargePayment s env db paymentID = (Inr payment, db)"
    if "paymentID \<noteq> 0" "s = wired" "\<not> payment_query_err env"
      "OrderID payment \<noteq> 0
       \<or> (\<not> recharge_query_err env
           \<and> GetRechargeOrderByPaymentIDForUpdate db (ID payment) \<noteq> None)"
    using that assms
    by (auto simp: ExpireWalletRechargePayment_def wired_def Transaction_def expireTx_def
          canExpireWalletRechargePayment_def split: option.splits)
  have missing: "ExpireWalletRechargePayment s env db paymentID
                   = (Inl ErrWalletRechargeNotFound, db)"
    if "paymentID \<noteq> 0" "s = wired" "\<not> payment_query_err env" "OrderID payment = 0"
      "\<not> recharge_query_err env"
      "GetRechargeOrderByPaymentIDForUpdate db (ID payment) = None"
    using that assms(1)
    by (simp add: ExpireWalletRechargePayment_def wired_def Transaction_def expireTx_def)
  have returned: "paymentID \<noteq> 0 \<and> s = wired \<and> \<not> payment_query_err env
          \<and> (OrderID payment \<noteq> 0
               \<or> (\<not> recharge_query_err env
                   \<and> GetRechargeOrderByPaymentIDForUpdate db (ID payment) \<noteq> None))
          \<longrightarrow> ExpireWalletRechargePayment s env db paymentID = (Inr payment, db)"
    using ret by blast
  have refused: "paymentID \<noteq> 0 \<and> s = wired \<and> \<not> payment_query_err env
          \<and> OrderID payment = 0 \<and> \<not> recharge_query_err env
          \<and> GetRechargeOrderByPaymentIDForUpdate db (ID payment) = None
          \<longrightarrow> ExpireWalletRechargePayment s env db paymentID
                = (Inl ErrWalletRechargeNotFound, db)"
    by (intro impI, elim conjE) (rule missing; assumption)
  show ?thesis by (intro conjI) (fact frame returned refused)+
qed

theorem ExpireWalletRechargePayment_guard_witness:
  "ExpireWalletRechargePayment wired (calm 2000)
      (fixture_db PaymentStatusSuccess WalletRechargeStatusSuccess) 1
     = (Inr (fixture_payment PaymentStatusSuccess),
        fixture_db PaymentStatusSuccess WalletRechargeStatusSuccess)
   \<and> PaidAt (fixture_payment PaymentStatusSuccess) = Some 1000
   \<and> Status (fixture_payment PaymentStatusSuccess) = PaymentStatusSuccess
   \<and> ExpireWalletRechargePayment wired (calm 2000) (orphan_db PaymentStatusFailed) 1
     = (Inl ErrWalletRechargeNotFound, orphan_db PaymentStatusFailed)"
  using ExpireWalletRechargePayment_guard
    [of "fixture_db PaymentStatusSuccess WalletRechargeStatusSuccess" 1
        "fixture_payment PaymentStatusSuccess" wired "calm 2000"]
    ExpireWalletRechargePayment_guard
    [of "orphan_db PaymentStatusFailed" 1 "fixture_payment PaymentStatusFailed" wired
        "calm 2000"]
  by (simp add: fixture_db_def orphan_db_def fixture_payment_def fixture_recharge_def
        First_payment_def GetRechargeOrderByPaymentIDForUpdate_def calm_def)

text \<open>
  The claim as worded fails for a payment in a terminal status that has neither an order
  nor a recharge order: the call returns an error, not the payment.
\<close>

theorem ExpireWalletRechargePayment_orphan_counterexample:
  "First_payment (orphan_db PaymentStatusSuccess) 1
       = Some (fixture_payment PaymentStatusSuccess)
   \<and> Status (fixture_payment PaymentStatusSuccess) = PaymentStatusSuccess
   \<and> ExpireWalletRechargePayment wired (calm 2000) (orphan_db PaymentStatusSuccess) 1
       = (Inl ErrWalletRechargeNotFound, orphan_db PaymentStatusSuccess)
   \<and> ExpireWalletRechargePayment wired (calm 2000) (orphan_db PaymentStatusSuccess) 1
       \<noteq> (Inr (fixture_payment PaymentStatusSuccess), orphan_db PaymentStatusSuccess)"
  by (simp add: ExpireWalletRechargePayment_def wired_def Transaction_def expireTx_def
        orphan_db_def fixture_payment_def First_payment_def
        GetRechargeOrderByPaymentIDForUpdate_def calm_def)


subsection \<open>Expiry of a pending top-up\<close>

lemma canExpire_pending:
  "Status payment = PaymentStatusPending \<or> Status payment = PaymentStatusInitiated \<Longrightarrow>
   Recharge_Status recharge = WalletRechargeStatusPending \<Longrightarrow>
   canExpireWalletRechargePayment (Some payment) (Some recharge)"
  by (auto simp: canExpireWalletRechargePayment_def)

lemma expireTx_pending:
  assumes "First_payment db paymentID = Some payment"
    and "OrderID payment = 0"
    and "Status payment = PaymentStatusPending \<or> Status payment = PaymentStatusInitiated"
    and "GetRechargeOrderByPaymentIDForUpdate db (ID payment) = Some recharge"
    and "Recharge_Status recharge = WalletRechargeStatusPending"
    and "\<not> payment_query_err env" and "\<not> recharge_query_err env"
  shows "expireTx env paymentID db =
     (if payment_update_err env then (Inl ErrPaymentUpdateFailed, db)
      else if recharge_update_err env
        then (Inl ErrPaymentUpdateFailed, Update_payment (expired_payment env payment) db)
      else (Inr (expired_payment env payment), expired_db env payment recharge db))"
  using assms(1,2,4,6,7) canExpire_pending [OF assms(3,5)]
  by (simp add: expireTx_def expired_payment_def expired_db_def expired_recharge_def Let_def)

lemma expire_pending:
  assumes "paymentID \<noteq> 0"
    and "First_payment db paymentID = Some payment"
    and "OrderID payment = 0"
    and "Status payment = PaymentStatusPending \<or> Status payment = PaymentStatusInitiated"
    and "GetRechargeOrderByPaymentIDForUpdate db (ID payment) = Some recharge"
    and "Recharge_Status recharge = WalletRechargeStatusPending"
    and "\<not> payment_query_err env" and "\<not> recharge_query_err env"
  shows "ExpireWalletRechargePayment wired env db paymentID =
     (if payment_update_err env \<or> recharge_update_err env then (Inl ErrPaymentUpdateFailed, db)
      else (Inr (expired_payment env payment),
            expired_db env payment recharge db))"
  using assms(1)
  by (simp add: ExpireWalletRechargePayment_def wired_def Transaction_def
        expireTx_pending [OF assms(2-8)])

lemma expired_db_payment:
  assumes "First_payment db paymentID = Some payment"
  shows "First_payment (expired_db env payment recharge db) paymentID = Some (expired_payment env payment)"
proof -
  have k: "ID payment = paymentID"
    using find_key [of ID paymentID "payments db" payment] assms
    by (simp add: First_payment_def)
  have "find (\<lambda>x. ID x = paymentID)
          (map (\<lambda>q. if ID q = ID (expired_payment env payment) then expired_payment env payment else q)
             (payments db)) = Some (expired_payment env payment)"
    using assms k
    by (intro find_update_row [where g = ID and r = payment])
       (simp_all add: First_payment_def expired_payment_def)
  then show ?thesis
    by (simp add: First_payment_def expired_db_def Update_payment_def UpdateRechargeOrder_def)
qed

lemma expired_db_recharge:
  assumes "GetRechargeOrderByPaymentIDForUpdate db k = Some recharge"
  shows "GetRechargeOrderByPaymentIDForUpdate (expired_db env payment recharge db) k
           = Some (expired_recharge env recharge)"
proof -
  have k: "Recharge_PaymentID recharge = k"
    using find_key [of Recharge_PaymentID k "recharges db" recharge] assms
    by (simp add: GetRechargeOrderByPaymentIDForUpdate_def)
  have "find (\<lambda>x. Recharge_PaymentID x = k)
          (map (\<lambda>q. if Recharge_ID q = Recharge_ID (expired_recharge env recharge)
                     then expired_recharge env recharge else q)
             (recharges db)) = Some (expired_recharge env recharge)"
    using assms k
    by (intro find_update_row [where g = Recharge_ID and r = recharge])
       (simp_all add: GetRechargeOrderByPaymentIDForUpdate_def expired_recharge_def)
  then show ?thesis
    by (simp add: GetRechargeOrderByPaymentIDForUpdate_def expired_db_def Update_payment_def
          UpdateRechargeOrder_def)
qed

text \<open>
  C2. For a payment without an order, in status Pending or Initiated, whose recharge order
  is Pending (both rows readable, identifier not zero): when both updates succeed the call
  returns the payment with status Expired and expired-at set to the current time, the
  stored payment is that row and the stored recharge order has status Expired; when either
  update fails the call returns the update error and the database is as before (both rows
  change or neither). A second call on the resulting database, at any later time, returns
  the same payment and leaves the database unchanged.
\<close>

theorem ExpireWalletRechargePayment_expires:
  assumes "paymentID \<noteq> 0"
    and "First_payment db paymentID = Some payment"
    and "OrderID payment = 0"
    and "Status payment = PaymentStatusPending \<or> Status payment = PaymentStatusInitiated"
    and "GetRechargeOrderByPaymentIDForUpdate db (ID payment) = Some recharge"
    and "Recharge_Status recharge = WalletRechargeStatusPending"
    and "\<not> payment_query_err env" and "\<not> recharge_query_err env"
  shows "\<exists>payment' recharge' db'.
      ExpireWalletRechargePayment wired env db paymentID =
        (if payment_update_err env \<or> recharge_update_err env
         then (Inl ErrPaymentUpdateFailed, db) else (Inr payment', db'))
    \<and> payment' = payment\<lparr>Status := PaymentStatusExpired, ExpiredAt := Some (now env),
                             UpdatedAt := now env\<rparr>
    \<and> recharge' = recharge\<lparr>Recharge_Status := WalletRechargeStatusExpired,
                               Recharge_UpdatedAt := now env\<rparr>
    \<and> First_payment db' paymentID = Some payment'
    \<and> GetRechargeOrderByPaymentIDForUpdate db' (ID payment') = Some recharge'
    \<and> (\<forall>env2. \<not> payment_query_err env2 \<and> \<not> recharge_query_err env2 \<longrightarrow>
           ExpireWalletRechargePayment wired env2 db' paymentID = (Inr payment', db'))"
proof -
  let ?p = "expired_payment env payment"
  let ?r = "expired_recharge env recharge"
  let ?db = "expired_db env payment recharge db"
  have run: "ExpireWalletRechargePayment wired env db paymentID =
        (if payment_update_err env \<or> recharge_update_err env
         then (Inl ErrPaymentUpdateFailed, db) else (Inr ?p, ?db))"
    by (rule expire_pending [OF assms])
  have p: "First_payment ?db paymentID = Some ?p"
    by (rule expired_db_payment [OF assms(2)])
  have id: "ID ?p = ID payment" by (simp add: expired_payment_def)
  have r: "GetRechargeOrderByPaymentIDForUpdate ?db (ID ?p) = Some ?r"
    unfolding id by (rule expired_db_recharge [OF assms(5)])
  have stop: "\<not> canExpireWalletRechargePayment (Some ?p) (Some ?r)"
    by (simp add: canExpireWalletRechargePayment_def expired_recharge_def)
  have order: "OrderID ?p = 0"
    using assms(3) by (simp add: expired_payment_def)
  have again: "ExpireWalletRechargePayment wired env2 ?db paymentID = (Inr ?p, ?db)"
    if "\<not> payment_query_err env2 \<and> \<not> recharge_query_err env2" for env2
    using that assms(1) stop
    by (simp add: ExpireWalletRechargePayment_def wired_def Transaction_def expireTx_def
        p r order)
  show ?thesis
    using run p r again
    by (intro exI [of _ ?p] exI [of _ ?r] exI [of _ ?db])
       (simp add: expired_payment_def expired_recharge_def)
qed


theorem ExpireWalletRechargePayment_expires_witness:
  "\<exists>payment' db'.
      ExpireWalletRechargePayment wired (calm 2000)
        (fixture_db PaymentStatusPending WalletRechargeStatusPending) 1 = (Inr payment', db')
    \<and> Status payment' = PaymentStatusExpired \<and> ExpiredAt payment' = Some 2000
    \<and> map Recharge_Status (recharges db') = [WalletRechargeStatusExpired]
    \<and> ExpireWalletRechargePayment wired (calm 3000) db' 1 = (Inr payment', db')"
proof -
  let ?db = "fixture_db PaymentStatusPending WalletRechargeStatusPending"
  let ?p = "fixture_payment PaymentStatusPending"
  let ?r = "fixture_recharge WalletRechargeStatusPending"
  have h: "First_payment ?db 1 = Some ?p" "OrderID ?p = 0"
    "Status ?p = PaymentStatusPending \<or> Status ?p = PaymentStatusInitiated"
    "GetRechargeOrderByPaymentIDForUpdate ?db (ID ?p) = Some ?r"
    "Recharge_Status ?r = WalletRechargeStatusPending"
    "\<not> payment_query_err (calm 2000)" "\<not> recharge_query_err (calm 2000)"
    by (simp_all add: fixture_db_def fixture_payment_def fixture_recharge_def First_payment_def
        GetRechargeOrderByPaymentIDForUpdate_def calm_def)
  have nz: "(1::nat) \<noteq> 0" by simp
  from ExpireWalletRechargePayment_expires [OF nz h]
  obtain payment' recharge' db' where
    run: "ExpireWalletRechargePayment wired (calm 2000) ?db 1 =
        (if payment_update_err (calm 2000) \<or> recharge_update_err (calm 2000)
         then (Inl ErrPaymentUpdateFailed, ?db) else (Inr payment', db'))"
    and p: "payment' = ?p\<lparr>Status := PaymentStatusExpired, ExpiredAt := Some (now (calm 2000)),
                             UpdatedAt := now (calm 2000)\<rparr>"
    and r: "recharge' = ?r\<lparr>Recharge_Status := WalletRechargeStatusExpired,
                               Recharge_UpdatedAt := now (calm 2000)\<rparr>"
    and look: "GetRechargeOrderByPaymentIDForUpdate db' (ID payment') = Some recharge'"
    and again: "\<forall>env2. \<not> payment_query_err env2 \<and> \<not> recharge_query_err env2 \<longrightarrow>
           ExpireWalletRechargePayment wired env2 db' 1 = (Inr payment', db')"
    by auto
  have db': "db' = \<lparr>payments = [payment'], recharges = [recharge']\<rparr>"
    using run
    by (simp add: calm_def ExpireWalletRechargePayment_def wired_def Transaction_def
        expireTx_def canExpireWalletRechargePayment_def Update_payment_def
        UpdateRechargeOrder_def First_payment_def GetRechargeOrderByPaymentIDForUpdate_def
        fixture_db_def fixture_payment_def fixture_recharge_def p r Let_def)
  have second: "ExpireWalletRechargePayment wired (calm 3000) db' 1 = (Inr payment', db')"
    using again by (simp add: calm_def)
  have first: "ExpireWalletRechargePayment wired (calm 2000) ?db 1 = (Inr payment', db')"
    using run by (simp add: calm_def)
  have st: "Status payment' = PaymentStatusExpired" and at: "ExpiredAt payment' = Some 2000"
    by (simp_all add: p calm_def)
  have rs: "map Recharge_Status (recharges db') = [WalletRechargeStatusExpired]"
    by (simp add: db' r)
  show ?thesis
    by (rule exI [of _ payment'], rule exI [of _ db']) (intro conjI first st at rs second)
qed

section \<open>Parsing the passthrough payment identifier\<close>

lemmas str_eval = TrimSpace_def leadingSpace_def trailingSpace_def isAsciiSpace_def
  unicodeSpaces_def Split_def SplitN2_def ParseUint_def digitVal_def maxUint64_def
  isAscii_def asciiLower_def

subsection \<open>Parsing an unsigned integer\<close>

lemma foldl_digits_ge:
  "(a::nat) \<le> foldl (\<lambda>n c. n * 10 + (of_char c - of_char CHR ''0'')) a s"
proof (induction s arbitrary: a)
  case Nil
  then show ?case by simp
next
  case (Cons c cs)
  have "a \<le> a * 10 + (of_char c - of_char CHR ''0'')" by simp
  also have "\<dots> \<le> foldl (\<lambda>n c. n * 10 + (of_char c - of_char CHR ''0''))
                      (a * 10 + (of_char c - of_char CHR ''0'')) cs"
    by (rule Cons.IH)
  finally show ?case by simp
qed

lemma parseDigits_iff:
  "parseDigits a s = Some n \<longleftrightarrow>
     (\<forall>c\<in>set s. isDigit c)
     \<and> foldl (\<lambda>n c. n * 10 + (of_char c - of_char CHR ''0'')) a s = n
     \<and> (s \<noteq> [] \<longrightarrow> n \<le> maxUint64)"
proof (induction s arbitrary: a)
  case Nil
  then show ?case by auto
next
  case (Cons c cs)
  let ?a = "a * 10 + (of_char c - of_char CHR ''0'')"
  let ?f = "foldl (\<lambda>n c. n * 10 + (of_char c - of_char CHR ''0''))"
  show ?case
  proof (cases "isDigit c")
    case False
    then have "digitVal c = None" by (simp add: digitVal_def isDigit_def)
    with False show ?thesis by simp
  next
    case True
    then have d: "digitVal c = Some (of_char c - of_char CHR ''0'')"
      by (simp add: digitVal_def isDigit_def)
    show ?thesis
    proof (cases "?a > maxUint64")
      case True
      have "?a \<le> ?f ?a cs" by (rule foldl_digits_ge)
      with True have "\<not> ?f ?a cs \<le> maxUint64" by linarith
      with True d show ?thesis by auto
    next
      case False
      then have "parseDigits a (c # cs) = parseDigits ?a cs"
        using d by simp
      also have "\<dots> = Some n \<longleftrightarrow>
          (\<forall>c\<in>set cs. isDigit c) \<and> ?f ?a cs = n \<and> (cs \<noteq> [] \<longrightarrow> n \<le> maxUint64)"
        by (rule Cons.IH)
      finally show ?thesis
        using \<open>isDigit c\<close> False by (cases cs) auto
    qed
  qed
qed

lemma ParseUint_iff:
  "ParseUint s = Some n \<longleftrightarrow>
     s \<noteq> [] \<and> (\<forall>c\<in>set s. isDigit c) \<and> decimalValue s = n \<and> n \<le> maxUint64"
  by (auto simp: ParseUint_def decimalValue_def parseDigits_iff)

subsection \<open>Splitting\<close>

lemma SplitN2_cut:
  "sep \<notin> set k \<Longrightarrow> SplitN2 (k @ sep # v) sep = [k, v]"
proof -
  assume k: "sep \<notin> set k"
  then have "takeWhile (\<lambda>c. c \<noteq> sep) (k @ sep # v) = k"
    by (subst takeWhile_append2) auto
  moreover from k have "dropWhile (\<lambda>c. c \<noteq> sep) (k @ sep # v) = sep # v"
    by (subst dropWhile_append2) auto
  ultimately show ?thesis by (simp add: SplitN2_def)
qed

lemma SplitN2_two:
  assumes "length (SplitN2 p sep) = 2"
  shows "p = SplitN2 p sep ! 0 @ sep # SplitN2 p sep ! 1 \<and> sep \<notin> set (SplitN2 p sep ! 0)"
proof -
  have mem: "sep \<in> set p" using assms by (auto simp: SplitN2_def split: if_splits)
  then have ne: "dropWhile (\<lambda>c. c \<noteq> sep) p \<noteq> []" by simp
  then have "hd (dropWhile (\<lambda>c. c \<noteq> sep) p) = sep"
    using hd_dropWhile [of "\<lambda>c. c \<noteq> sep" p] by simp
  with ne have "dropWhile (\<lambda>c. c \<noteq> sep) p = sep # drop 1 (dropWhile (\<lambda>c. c \<noteq> sep) p)"
    by (cases "dropWhile (\<lambda>c. c \<noteq> sep) p") auto
  then have "p = takeWhile (\<lambda>c. c \<noteq> sep) p @ sep # drop 1 (dropWhile (\<lambda>c. c \<noteq> sep) p)"
    using takeWhile_dropWhile_id [of "\<lambda>c. c \<noteq> sep" p] by simp
  moreover have "sep \<notin> set (takeWhile (\<lambda>c. c \<noteq> sep) p)"
    by (auto dest: set_takeWhileD)
  ultimately show ?thesis using mem by (simp add: SplitN2_def)
qed

lemma set_splitAcc:
  "p \<in> set (splitAcc sep acc s) \<Longrightarrow> set p \<subseteq> set acc \<union> set s"
proof (induction s arbitrary: acc)
  case Nil
  then show ?case by simp
next
  case (Cons c cs)
  show ?case
  proof (cases "c = sep")
    case True
    with Cons.prems have "p = rev acc \<or> p \<in> set (splitAcc sep [] cs)" by simp
    then show ?thesis using Cons.IH [of "[]"] by auto
  next
    case False
    with Cons.prems have "p \<in> set (splitAcc sep (c # acc) cs)" by simp
    from Cons.IH [OF this] show ?thesis by auto
  qed
qed

lemma set_Split: "p \<in> set (Split s sep) \<Longrightarrow> set p \<subseteq> set s"
  using set_splitAcc [of p sep "[]" s] by (simp add: Split_def)

subsection \<open>The loop over the parts\<close>

lemma paymentIDPart_skip:
  "\<forall>p\<in>set ps. paymentIDPart [p] = None \<Longrightarrow> paymentIDPart (ps @ qs) = paymentIDPart qs"
  by (induction ps) (auto simp: Let_def split: if_splits)

lemma paymentIDPart_none:
  "\<forall>p\<in>set ps. paymentIDPart [p] = None \<Longrightarrow> paymentIDPart ps = None"
  using paymentIDPart_skip [of ps "[]"] by simp

lemma paymentIDPart_hit:
  "CHR ''='' \<notin> set k \<Longrightarrow> EqualFold (TrimSpace k) ''payment_id'' \<Longrightarrow>
   paymentIDPart ((k @ CHR ''='' # v) # rest) = Some (TrimSpace v)"
  by (simp add: SplitN2_cut)

lemma paymentIDPart_Some:
  "paymentIDPart parts = Some c \<Longrightarrow>
   \<exists>k v. k @ CHR ''='' # v \<in> set parts \<and> CHR ''='' \<notin> set k
     \<and> EqualFold (TrimSpace k) ''payment_id'' \<and> c = TrimSpace v"
proof (induction parts)
  case Nil
  then show ?case by simp
next
  case (Cons p parts)
  show ?case
  proof (cases "length (SplitN2 p CHR ''='') = 2
      \<and> EqualFold (TrimSpace (SplitN2 p CHR ''='' ! 0)) ''payment_id''")
    case True
    then have c: "c = TrimSpace (SplitN2 p CHR ''='' ! 1)"
      using Cons.prems by (simp add: Let_def)
    from True SplitN2_two [of p "CHR ''=''"]
    have "p = SplitN2 p CHR ''='' ! 0 @ CHR ''='' # SplitN2 p CHR ''='' ! 1"
      and "CHR ''='' \<notin> set (SplitN2 p CHR ''='' ! 0)" by simp_all
    with True c show ?thesis
      by (intro exI [of _ "SplitN2 p CHR ''='' ! 0"] exI [of _ "SplitN2 p CHR ''='' ! 1"]) simp
  next
    case False
    then have "paymentIDPart parts = Some c"
      using Cons.prems by (auto simp: Let_def split: if_splits)
    from Cons.IH [OF this] show ?thesis by auto
  qed
qed

lemma ParseUint_eq: "CHR ''='' \<in> set s \<Longrightarrow> ParseUint s = None"
proof (rule ccontr)
  assume m: "CHR ''='' \<in> set s" and "ParseUint s \<noteq> None"
  then obtain n where "ParseUint s = Some n" by auto
  then have "\<forall>c\<in>set s. isDigit c" by (simp add: ParseUint_iff)
  with m have "isDigit CHR ''=''" by blast
  then show False by (simp add: isDigit_def)
qed

lemma PPT_unfold:
  "ParsePassThroughPaymentID s =
     (if TrimSpace s = [] then 0
      else if CHR ''='' \<in> set (TrimSpace s)
        then (case paymentIDPart (Split (TrimSpace s) CHR ''&'') of
                Some v \<Rightarrow> (case ParseUint v of None \<Rightarrow> 0 | Some n \<Rightarrow> n)
              | None \<Rightarrow> 0)
      else (case ParseUint (TrimSpace s) of None \<Rightarrow> 0 | Some n \<Rightarrow> n))"
  by (auto simp: ParsePassThroughPaymentID_def Let_def ParseUint_eq split: option.splits)


text \<open>
  C10. \<open>ParsePassThroughPaymentID\<close>, with \<open>raw\<close> the trimmed passthrough string:
  it returns 0 when \<open>raw\<close> is empty; when \<open>raw\<close> holds no \<open>=\<close> it returns the number \<open>raw\<close>
  parses to as an unsigned 64-bit decimal, and 0 when it does not parse; when the first
  \<open>&\<close>-separated part of \<open>raw\<close> whose key (the text before its first \<open>=\<close>, trimmed) equals
  \<open>payment_id\<close> up to case is \<open>k=v\<close>, it returns the number the trimmed \<open>v\<close> parses to, and 0
  when that does not parse; when \<open>raw\<close> holds \<open>=\<close> and no part has such a key it returns 0.
  So a result other than 0 is always the value of a non-empty string of decimal digits, at
  most \<open>2^64 - 1\<close>, that is either \<open>raw\<close> itself or the trimmed value of a \<open>payment_id\<close> key.
\<close>

theorem ParsePassThroughPaymentID_spec:
  "(TrimSpace s = [] \<longrightarrow> ParsePassThroughPaymentID s = 0)
   \<and> (CHR ''='' \<notin> set (TrimSpace s) \<longrightarrow>
        ParsePassThroughPaymentID s =
          (case ParseUint (TrimSpace s) of None \<Rightarrow> 0 | Some n \<Rightarrow> n))
   \<and> (\<forall>ps k v rest.
          Split (TrimSpace s) CHR ''&'' = ps @ (k @ CHR ''='' # v) # rest
          \<and> (\<forall>p\<in>set ps. paymentIDPart [p] = None)
          \<and> CHR ''='' \<notin> set k \<and> EqualFold (TrimSpace k) ''payment_id'' \<longrightarrow>
          ParsePassThroughPaymentID s =
            (case ParseUint (TrimSpace v) of None \<Rightarrow> 0 | Some n \<Rightarrow> n))
   \<and> (CHR ''='' \<in> set (TrimSpace s)
        \<and> (\<forall>p\<in>set (Split (TrimSpace s) CHR ''&''). paymentIDPart [p] = None) \<longrightarrow>
        ParsePassThroughPaymentID s = 0)
   \<and> (ParsePassThroughPaymentID s \<noteq> 0 \<longrightarrow>
        (\<exists>cand. cand \<noteq> [] \<and> (\<forall>c\<in>set cand. isDigit c)
           \<and> decimalValue cand = ParsePassThroughPaymentID s
           \<and> ParsePassThroughPaymentID s \<le> maxUint64
           \<and> (cand = TrimSpace s
               \<or> (\<exists>k v. k @ CHR ''='' # v \<in> set (Split (TrimSpace s) CHR ''&'')
                      \<and> CHR ''='' \<notin> set k \<and> EqualFold (TrimSpace k) ''payment_id''
                      \<and> cand = TrimSpace v))))"
proof (intro conjI impI allI)
  assume "TrimSpace s = []"
  then show "ParsePassThroughPaymentID s = 0" by (simp add: PPT_unfold)
next
  assume "CHR ''='' \<notin> set (TrimSpace s)"
  then show "ParsePassThroughPaymentID s =
      (case ParseUint (TrimSpace s) of None \<Rightarrow> 0 | Some n \<Rightarrow> n)"
    by (simp add: PPT_unfold ParseUint_def)
next
  fix ps k v rest
  assume a: "Split (TrimSpace s) CHR ''&'' = ps @ (k @ CHR ''='' # v) # rest
          \<and> (\<forall>p\<in>set ps. paymentIDPart [p] = None)
          \<and> CHR ''='' \<notin> set k \<and> EqualFold (TrimSpace k) ''payment_id''"
  then have part: "k @ CHR ''='' # v \<in> set (Split (TrimSpace s) CHR ''&'')" by simp
  have eq: "CHR ''='' \<in> set (TrimSpace s)"
    using set_Split [OF part] by auto
  then have ne: "TrimSpace s \<noteq> []" by auto
  have "paymentIDPart (Split (TrimSpace s) CHR ''&'') = Some (TrimSpace v)"
    using a paymentIDPart_skip [of ps "(k @ CHR ''='' # v) # rest"]
      paymentIDPart_hit [of k v rest] by simp
  with eq ne show "ParsePassThroughPaymentID s =
      (case ParseUint (TrimSpace v) of None \<Rightarrow> 0 | Some n \<Rightarrow> n)"
    by (simp add: PPT_unfold)
next
  assume a: "CHR ''='' \<in> set (TrimSpace s)
        \<and> (\<forall>p\<in>set (Split (TrimSpace s) CHR ''&''). paymentIDPart [p] = None)"
  then have "paymentIDPart (Split (TrimSpace s) CHR ''&'') = None"
    by (intro paymentIDPart_none) simp
  with a show "ParsePassThroughPaymentID s = 0" by (simp add: PPT_unfold)
next
  assume nz: "ParsePassThroughPaymentID s \<noteq> 0"
  let ?raw = "TrimSpace s"
  let ?P = "\<lambda>cand. cand \<noteq> [] \<and> (\<forall>c\<in>set cand. isDigit c)
           \<and> decimalValue cand = ParsePassThroughPaymentID s
           \<and> ParsePassThroughPaymentID s \<le> maxUint64
           \<and> (cand = ?raw
               \<or> (\<exists>k v. k @ CHR ''='' # v \<in> set (Split ?raw CHR ''&'')
                      \<and> CHR ''='' \<notin> set k \<and> EqualFold (TrimSpace k) ''payment_id''
                      \<and> cand = TrimSpace v))"
  show "\<exists>cand. ?P cand"
  proof (cases "CHR ''='' \<in> set ?raw")
    case False
    with nz obtain n where "ParseUint ?raw = Some n" and "ParsePassThroughPaymentID s = n"
      by (auto simp: PPT_unfold split: if_splits option.splits)
    then have "?P ?raw" by (simp add: ParseUint_iff)
    then show ?thesis by blast
  next
    case True
    with nz obtain c n where c: "paymentIDPart (Split ?raw CHR ''&'') = Some c"
      and n: "ParseUint c = Some n" "ParsePassThroughPaymentID s = n"
      by (auto simp: PPT_unfold split: if_splits option.splits)
    from paymentIDPart_Some [OF c] obtain k v where
      "k @ CHR ''='' # v \<in> set (Split ?raw CHR ''&'')" "CHR ''='' \<notin> set k"
      "EqualFold (TrimSpace k) ''payment_id''" "c = TrimSpace v" by blast
    with n have "?P c" by (auto simp: ParseUint_iff)
    then show ?thesis by blast
  qed
qed

theorem ParsePassThroughPaymentID_spec_witness:
  "ParsePassThroughPaymentID ''payment_id=123'' = 123
   \<and> ParsePassThroughPaymentID ''123'' = 123
   \<and> ParsePassThroughPaymentID ''x=1'' = 0
   \<and> ParsePassThroughPaymentID '' '' = 0"
proof -
  have kv: "ParsePassThroughPaymentID ''payment_id=123'' = 123"
  proof -
    have "Split (TrimSpace ''payment_id=123'') CHR ''&'' = [] @ (''payment_id'' @ CHR ''='' # ''123'') # []
        \<and> (\<forall>p\<in>set []. paymentIDPart [p] = None)
        \<and> CHR ''='' \<notin> set ''payment_id'' \<and> EqualFold (TrimSpace ''payment_id'') ''payment_id''"
      by (simp add: str_eval)
    with ParsePassThroughPaymentID_spec [of "''payment_id=123''"]
    have "ParsePassThroughPaymentID ''payment_id=123'' =
        (case ParseUint (TrimSpace ''123'') of None \<Rightarrow> 0 | Some n \<Rightarrow> n)"
      by blast
    then show ?thesis by (simp add: str_eval)
  qed
  have bare: "ParsePassThroughPaymentID ''123'' = 123"
    using ParsePassThroughPaymentID_spec [of "''123''"] by (simp add: str_eval)
  have other: "ParsePassThroughPaymentID ''x=1'' = 0"
  proof -
    have "CHR ''='' \<in> set (TrimSpace ''x=1'')
        \<and> (\<forall>p\<in>set (Split (TrimSpace ''x=1'') CHR ''&''). paymentIDPart [p] = None)"
      by (simp add: str_eval)
    with ParsePassThroughPaymentID_spec [of "''x=1''"] show ?thesis by blast
  qed
  have blank: "ParsePassThroughPaymentID '' '' = 0"
    using ParsePassThroughPaymentID_spec [of "'' ''"] by (simp add: str_eval)
  show ?thesis using kv bare other blank by simp
qed

section \<open>The signature of a payload\<close>

lemmas sign_eval = signText_def scenario_payload_def test_payload_def index_def FormatInt_def
  digitChar_def

lemma replicate_numeral': "replicate (numeral k) x = x # replicate (pred_numeral k) x"
  by (simp add: numeral_eq_Suc)

lemma chunks_numeral: "chunks (numeral k) n xs = take n xs # chunks (pred_numeral k) n (drop n xs)"
  by (simp add: numeral_eq_Suc)

lemma upt_64:
  "[0..<64] = [0, 1, 2, 3, 4, 5, 6, 7, 8, 9, 10, 11, 12, 13, 14, 15]
     @ [16, 17, 18, 19, 20, 21, 22, 23, 24, 25, 26, 27, 28, 29, 30, 31]
     @ [32, 33, 34, 35, 36, 37, 38, 39, 40, 41, 42, 43, 44, 45, 46, 47]
     @ [48, 49, 50, 51, 52, 53, 54, 55, 56, 57, 58, 59, 60, 61, 62, 63]"
  by (simp add: upt_rec)

lemma text_a_blocks:
  "md5_pad (map of_char ''OutOrderId=ORDER-1001&Status=1secret'') = concat (map word_bytes text_a_words)"
  by (simp add: md5_pad_def word_bytes_def text_a_words_def replicate_numeral')

lemma text_a_round1:
  "foldl (md5_step text_a_words) (1732584193, 4023233417, 2562383102, 271733878) [0, 1, 2, 3, 4, 5, 6, 7, 8, 9, 10, 11, 12, 13, 14, 15] = (4002594401, 2266249852, 2850412171, 3106229528)"
  by (simp add: md5_step_def md5_f_def md5_g_def md5_K_def md5_S_def rotl_def text_a_words_def)

lemma text_a_round2:
  "foldl (md5_step text_a_words) (4002594401, 2266249852, 2850412171, 3106229528) [16, 17, 18, 19, 20, 21, 22, 23, 24, 25, 26, 27, 28, 29, 30, 31] = (3817536195, 3669821981, 3561740089, 1439359301)"
  by (simp add: md5_step_def md5_f_def md5_g_def md5_K_def md5_S_def rotl_def text_a_words_def)

lemma text_a_round3:
  "foldl (md5_step text_a_words) (3817536195, 3669821981, 3561740089, 1439359301) [32, 33, 34, 35, 36, 37, 38, 39, 40, 41, 42, 43, 44, 45, 46, 47] = (1402935026, 2881414859, 2382297595, 948506395)"
  by (simp add: md5_step_def md5_f_def md5_g_def md5_K_def md5_S_def rotl_def text_a_words_def)

lemma text_a_round4:
  "foldl (md5_step text_a_words) (1402935026, 2881414859, 2382297595, 948506395) [48, 49, 50, 51, 52, 53, 54, 55, 56, 57, 58, 59, 60, 61, 62, 63] = (1426162167, 2555014388, 3238534971, 1743689634)"
  by (simp add: md5_step_def md5_f_def md5_g_def md5_K_def md5_S_def rotl_def text_a_words_def)

lemma text_a_block: "md5_block md5_init text_a_words = (3158746360, 2283280509, 1505950777, 2015423512)"
  unfolding md5_block_def md5_init_def upt_64 foldl_append
    text_a_round1 text_a_round2 text_a_round3 text_a_round4
  by simp

lemma text_a_md5:
  "ToLower (EncodeToString (md5_Sum ''OutOrderId=ORDER-1001&Status=1secret'')) = ''f8a446bc7d18188839fcc25918ec2078''"
  unfolding md5_Sum_def text_a_blocks
  by (simp add: text_a_words_def word_bytes_def chunks_numeral
        text_a_block [unfolded text_a_words_def] EncodeToString_def hexdigit_def asciiLower_def)

lemma text_b_blocks:
  "md5_pad (map of_char ''OutOrderId=ORDER-1001&Status=1 secret'') = concat (map word_bytes text_b_words)"
  by (simp add: md5_pad_def word_bytes_def text_b_words_def replicate_numeral')

lemma text_b_round1:
  "foldl (md5_step text_b_words) (1732584193, 4023233417, 2562383102, 271733878) [0, 1, 2, 3, 4, 5, 6, 7, 8, 9, 10, 11, 12, 13, 14, 15] = (4143016995, 807810696, 3648690129, 2246494477)"
  by (simp add: md5_step_def md5_f_def md5_g_def md5_K_def md5_S_def rotl_def text_b_words_def)

lemma text_b_round2:
  "foldl (md5_step text_b_words) (4143016995, 807810696, 3648690129, 2246494477) [16, 17, 18, 19, 20, 21, 22, 23, 24, 25, 26, 27, 28, 29, 30, 31] = (2039803780, 1082971879, 787860128, 2699954501)"
  by (simp add: md5_step_def md5_f_def md5_g_def md5_K_def md5_S_def rotl_def text_b_words_def)

lemma text_b_round3:
  "foldl (md5_step text_b_words) (2039803780, 1082971879, 787860128, 2699954501) [32, 33, 34, 35, 36, 37, 38, 39, 40, 41, 42, 43, 44, 45, 46, 47] = (121295061, 3430343944, 116037016, 401504992)"
  by (simp add: md5_step_def md5_f_def md5_g_def md5_K_def md5_S_def rotl_def text_b_words_def)

lemma text_b_round4:
  "foldl (md5_step text_b_words) (121295061, 3430343944, 116037016, 401504992) [48, 49, 50, 51, 52, 53, 54, 55, 56, 57, 58, 59, 60, 61, 62, 63] = (110029667, 3704533095, 929587216, 2042411594)"
  by (simp add: md5_step_def md5_f_def md5_g_def md5_K_def md5_S_def rotl_def text_b_words_def)

lemma text_b_block: "md5_block md5_init text_b_words = (1842613860, 3432799216, 3491970318, 2314145472)"
  unfolding md5_block_def md5_init_def upt_64 foldl_append
    text_b_round1 text_b_round2 text_b_round3 text_b_round4
  by simp

lemma text_b_md5:
  "ToLower (EncodeToString (md5_Sum ''OutOrderId=ORDER-1001&Status=1 secret'')) = ''640ed46df05b9ccc0e3d23d0c00eef89''"
  unfolding md5_Sum_def text_b_blocks
  by (simp add: text_b_words_def word_bytes_def chunks_numeral
        text_b_block [unfolded text_b_words_def] EncodeToString_def hexdigit_def asciiLower_def)


subsection \<open>The signed keys\<close>

lemma signKeys_filter:
  "signKeys payload =
     map fst (filter (\<lambda>(k, v). \<not> EqualFold (TrimSpace k) ''Signature'' \<and> \<not> isEmptyValue v) payload)"
  by (induction payload rule: signKeys.induct) auto

lemma index_entry:
  "distinct (map fst payload) \<Longrightarrow> (k, v) \<in> set payload \<Longrightarrow> index payload k = v"
  by (simp add: index_def)

lemma set_signKeys:
  assumes "distinct (map fst payload)"
  shows "set (signKeys payload) =
     {k \<in> fst ` set payload.
        \<not> EqualFold (TrimSpace k) ''Signature'' \<and> \<not> isEmptyValue (index payload k)}"
  using index_entry [OF assms]
  by (auto simp: signKeys_filter)

lemma distinct_signKeys: "distinct (map fst payload) \<Longrightarrow> distinct (signKeys payload)"
  by (simp add: signKeys_filter distinct_map_filter)

lemma sort_distinct: "distinct (xs :: string list) \<Longrightarrow> sort xs = sorted_list_of_set (set xs)"
  by (simp add: sorted_list_of_set_sort_remdups distinct_remdups_id)

text \<open>
  C3, as amended. For a payload (its keys distinct, as in every Go map) and a secret, the
  signature is the lower-case hexadecimal MD5 digest of this text: the keys of the payload
  whose value is not empty (nil, or a string or number that is blank once trimmed) and
  that do not equal \<open>Signature\<close> up to case and surrounding white space, in ascending
  order; each as \<open>key=value\<close> with the value normalised (strings trimmed); joined with \<open>&\<close>;
  followed by the trimmed secret. The text does not depend on the order in which the map
  is visited. For the scenario payload, with or without a \<open>Signature\<close> entry, and the secret
  \<open>secret\<close> the signature is \<open>f8a446bc7d18188839fcc25918ec2078\<close>.
\<close>

theorem SignPayload_sorted_keys:
  "(distinct (map fst payload) \<longrightarrow>
      SignPayload payload secret =
        ToLower (EncodeToString (md5_Sum
          (Join (map (\<lambda>key. key @ ''='' @ normalizeSignValue (index payload key))
                   (sorted_list_of_set
                      {key \<in> fst ` set payload.
                         \<not> EqualFold (TrimSpace key) ''Signature''
                         \<and> \<not> isEmptyValue (index payload key)}))
             ''&''
           @ TrimSpace secret))))
   \<and> SignPayload scenario_payload ''secret'' = ''f8a446bc7d18188839fcc25918ec2078''
   \<and> SignPayload test_payload ''secret'' = ''f8a446bc7d18188839fcc25918ec2078''"
proof (intro conjI impI)
  assume d: "distinct (map fst payload)"
  have "sort (signKeys payload) = sorted_list_of_set
      {key \<in> fst ` set payload.
         \<not> EqualFold (TrimSpace key) ''Signature'' \<and> \<not> isEmptyValue (index payload key)}"
    using sort_distinct [OF distinct_signKeys [OF d]] set_signKeys [OF d] by simp
  then show "SignPayload payload secret =
        ToLower (EncodeToString (md5_Sum
          (Join (map (\<lambda>key. key @ ''='' @ normalizeSignValue (index payload key))
                   (sorted_list_of_set
                      {key \<in> fst ` set payload.
                         \<not> EqualFold (TrimSpace key) ''Signature''
                         \<and> \<not> isEmptyValue (index payload key)}))
             ''&''
           @ TrimSpace secret)))"
    by (simp add: SignPayload_def signText_def)
next
  have "signText scenario_payload ''secret'' = ''OutOrderId=ORDER-1001&Status=1secret''"
    by (simp add: sign_eval str_eval)
  then show "SignPayload scenario_payload ''secret'' = ''f8a446bc7d18188839fcc25918ec2078''"
    by (simp only: SignPayload_def text_a_md5)
next
  have "signText test_payload ''secret'' = ''OutOrderId=ORDER-1001&Status=1secret''"
    by (simp add: sign_eval str_eval)
  then show "SignPayload test_payload ''secret'' = ''f8a446bc7d18188839fcc25918ec2078''"
    by (simp only: SignPayload_def text_a_md5)
qed

text \<open>
  The same text is signed whatever the order of the entries, and white space around the
  secret and around a value makes no difference: here the test's payload in another order,
  with blanks around the order number, in the empty value and around the secret.
\<close>

theorem SignPayload_sorted_keys_witness:
  "distinct (map fst reordered_payload)
   \<and> ToLower (EncodeToString (md5_Sum
          (Join (map (\<lambda>key. key @ ''='' @ normalizeSignValue (index reordered_payload key))
                   (sorted_list_of_set
                      {key \<in> fst ` set reordered_payload.
                         \<not> EqualFold (TrimSpace key) ''Signature''
                         \<and> \<not> isEmptyValue (index reordered_payload key)}))
             ''&''
           @ TrimSpace '' secret '')))
       = ''f8a446bc7d18188839fcc25918ec2078''
   \<and> SignPayload reordered_payload '' secret '' = ''f8a446bc7d18188839fcc25918ec2078''"
proof -
  have d: "distinct (map fst reordered_payload)"
    by (simp add: reordered_payload_def)
  have "signText reordered_payload '' secret '' = ''OutOrderId=ORDER-1001&Status=1secret''"
    by (simp add: reordered_payload_def sign_eval str_eval)
  then have code: "SignPayload reordered_payload '' secret '' = ''f8a446bc7d18188839fcc25918ec2078''"
    by (simp only: SignPayload_def text_a_md5)
  from SignPayload_sorted_keys [of reordered_payload "'' secret ''"] d
  have "SignPayload reordered_payload '' secret '' =
        ToLower (EncodeToString (md5_Sum
          (Join (map (\<lambda>key. key @ ''='' @ normalizeSignValue (index reordered_payload key))
                   (sorted_list_of_set
                      {key \<in> fst ` set reordered_payload.
                         \<not> EqualFold (TrimSpace key) ''Signature''
                         \<and> \<not> isEmptyValue (index reordered_payload key)}))
             ''&''
           @ TrimSpace '' secret '')))"
    by blast
  with code d show ?thesis by simp
qed

text \<open>
  The claim as worded fails where the secret carries white space: the code signs the
  trimmed secret, the wording appends the secret as it stands.
\<close>

theorem SignPayload_raw_secret_counterexample:
  "SignPayload scenario_payload '' secret'' \<noteq> claimed_SignPayload scenario_payload '' secret''"
proof -
  have "signText scenario_payload '' secret'' = ''OutOrderId=ORDER-1001&Status=1secret''"
    by (simp add: sign_eval str_eval)
  then have code: "SignPayload scenario_payload '' secret'' = ''f8a446bc7d18188839fcc25918ec2078''"
    by (simp only: SignPayload_def text_a_md5)
  have "claimed_signText scenario_payload '' secret'' = ''OutOrderId=ORDER-1001&Status=1 secret''"
    by (simp add: claimed_signText_def sign_eval str_eval)
  then have "claimed_SignPayload scenario_payload '' secret''
      = ToLower (EncodeToString (md5_Sum ''OutOrderId=ORDER-1001&Status=1 secret''))"
    by (simp only: claimed_SignPayload_def)
  with code show ?thesis by (simp only: text_b_md5) simp
qed

section \<open>Handling a callback\<close>

lemma text_c_blocks:
  "md5_pad (map of_char ''Id=tp-abc-1&OutOrderId=ORDER-2001&Status=1notify-secret'') = concat (map word_bytes text_c_words)"
  by (simp add: md5_pad_def word_bytes_def text_c_words_def replicate_numeral')

lemma text_c_round1:
  "foldl (md5_step text_c_words) (1732584193, 4023233417, 2562383102, 271733878) [0, 1, 2, 3, 4, 5, 6, 7, 8, 9, 10, 11, 12, 13, 14, 15] = (1077602277, 469975639, 1083962926, 2434229853)"
  by (simp add: md5_step_def md5_f_def md5_g_def md5_K_def md5_S_def rotl_def text_c_words_def)

lemma text_c_round2:
  "foldl (md5_step text_c_words) (1077602277, 469975639, 1083962926, 2434229853) [16, 17, 18, 19, 20, 21, 22, 23, 24, 25, 26, 27, 28, 29, 30, 31] = (2466253336, 722392585, 702835856, 4147469128)"
  by (simp add: md5_step_def md5_f_def md5_g_def md5_K_def md5_S_def rotl_def text_c_words_def)

lemma text_c_round3:
  "foldl (md5_step text_c_words) (2466253336, 722392585, 702835856, 4147469128) [32, 33, 34, 35, 36, 37, 38, 39, 40, 41, 42, 43, 44, 45, 46, 47] = (92695134, 265430200, 2439531684, 73525188)"
  by (simp add: md5_step_def md5_f_def md5_g_def md5_K_def md5_S_def rotl_def text_c_words_def)

lemma text_c_round4:
  "foldl (md5_step text_c_words) (92695134, 265430200, 2439531684, 73525188) [48, 49, 50, 51, 52, 53, 54, 55, 56, 57, 58, 59, 60, 61, 62, 63] = (4074215813, 330985904, 1302238059, 191053709)"
  by (simp add: md5_step_def md5_f_def md5_g_def md5_K_def md5_S_def rotl_def text_c_words_def)

lemma text_c_block: "md5_block md5_init text_c_words = (1511832710, 59252025, 3864621161, 462787587)"
  unfolding md5_block_def md5_init_def upt_64 foldl_append
    text_c_round1 text_c_round2 text_c_round3 text_c_round4
  by simp

lemma text_c_md5:
  "ToLower (EncodeToString (md5_Sum ''Id=tp-abc-1&OutOrderId=ORDER-2001&Status=1notify-secret'')) = ''86bc1c5a391d8803697059e60394951b''"
  unfolding md5_Sum_def text_c_blocks
  by (simp add: text_c_words_def word_bytes_def chunks_numeral
        text_c_block [unfolded text_c_words_def] EncodeToString_def hexdigit_def asciiLower_def)

lemmas handler_eval = demo_handler_def demo_json_def demo_payload_def demo_body_def
  demo_channel_def demo_config_def demo_payment_def demo_data_def

lemma demo_parse: "ParseCallback (decode demo_json) demo_body = Inr (demo_data [])"
  by (simp add: ParseCallback_def handler_eval str_eval ParseInt_def)

lemma demo_signText:
  "signText demo_payload ''notify-secret'' = ''Id=tp-abc-1&OutOrderId=ORDER-2001&Status=1notify-secret''"
  by (simp add: signText_def handler_eval index_def str_eval)

lemma demo_signature: "SignPayload demo_payload ''notify-secret'' = ''86bc1c5a391d8803697059e60394951b''"
  by (simp only: SignPayload_def demo_signText text_c_md5)

subsection \<open>Which payment a callback is for\<close>

lemma settle_forwarded:
  "forwarded (settle json h data payment) = Some input \<Longrightarrow> Input_PaymentID input = ID payment"
  by (auto simp: settle_def failed_def Let_def split: prod.splits option.splits sum.splits if_splits)

text \<open>
  C8. With \<open>n\<close> the payment identifier parsed from the passthrough text of a callback: when
  \<open>n\<close> is positive and the lookup by identifier yields a payment, that payment is the one
  the callback is resolved to, whatever the lookup by provider reference would yield; when
  \<open>n\<close> is 0 or the lookup by identifier yields none, the callback is resolved to what the
  repository's lookup of the latest payment by the callback's provider order reference
  yields, or to none when that lookup fails. A callback that resolves to no payment is
  answered with the failure token, and the input handed to the payment service carries
  the identifier of the resolved payment.
\<close>

theorem resolvePayment_precedence:
  "(0 < ParsePassThroughPaymentID (PassThroughInfo data)
      \<and> fst (GetByID h (ParsePassThroughPaymentID (PassThroughInfo data))) = Some p \<longrightarrow>
      resolvePayment h data = Some p
      \<and> resolvePayment (h\<lparr>GetLatestByProviderRef := other\<rparr>) data = Some p)
   \<and> (ParsePassThroughPaymentID (PassThroughInfo data) = 0
        \<or> fst (GetByID h (ParsePassThroughPaymentID (PassThroughInfo data))) = None \<longrightarrow>
        resolvePayment h data =
          (case GetLatestByProviderRef h (TokenOrderID data) of
             (latest, err) \<Rightarrow> if err then None else latest))
   \<and> (ParseCallback (decode json) body = Inr data
        \<and> forwarded (HandleTokenPayCallback json h (Some body)) = Some input \<longrightarrow>
        (\<exists>payment. resolvePayment h data = Some payment \<and> Input_PaymentID input = ID payment))
   \<and> (ParseCallback (decode json) body = Inr data
        \<and> TrimSpace (Signature data) \<noteq> [] \<and> TrimSpace (OutOrderID data) \<noteq> []
        \<and> TrimSpace (TokenOrderID data) \<noteq> [] \<and> resolvePayment h data = None \<longrightarrow>
        HandleTokenPayCallback json h (Some body) = failed)"
proof (intro conjI impI)
  assume "0 < ParsePassThroughPaymentID (PassThroughInfo data)
      \<and> fst (GetByID h (ParsePassThroughPaymentID (PassThroughInfo data))) = Some p"
  then show "resolvePayment h data = Some p"
    and "resolvePayment (h\<lparr>GetLatestByProviderRef := other\<rparr>) data = Some p"
    by (simp_all add: resolvePayment_def)
next
  assume "ParsePassThroughPaymentID (PassThroughInfo data) = 0
        \<or> fst (GetByID h (ParsePassThroughPaymentID (PassThroughInfo data))) = None"
  then show "resolvePayment h data =
          (case GetLatestByProviderRef h (TokenOrderID data) of
             (latest, err) \<Rightarrow> if err then None else latest)"
    by (auto simp: resolvePayment_def Let_def)
next
  assume a: "ParseCallback (decode json) body = Inr data
        \<and> forwarded (HandleTokenPayCallback json h (Some body)) = Some input"
  then have pc: "ParseCallback (decode json) body = Inr data"
    and fw: "forwarded (HandleTokenPayCallback json h (Some body)) = Some input" by simp_all
  show "\<exists>payment. resolvePayment h data = Some payment \<and> Input_PaymentID input = ID payment"
  proof (cases "resolvePayment h data")
    case None
    with fw show ?thesis
      by (simp add: HandleTokenPayCallback_def pc not_matched_def failed_def split: if_splits)
  next
    case (Some payment)
    with fw have "forwarded (settle json h data payment) = Some input"
      by (simp add: HandleTokenPayCallback_def pc not_matched_def split: if_splits)
    from settle_forwarded [OF this] Some show ?thesis by simp
  qed
next
  assume "ParseCallback (decode json) body = Inr data
        \<and> TrimSpace (Signature data) \<noteq> [] \<and> TrimSpace (OutOrderID data) \<noteq> []
        \<and> TrimSpace (TokenOrderID data) \<noteq> [] \<and> resolvePayment h data = None"
  then show "HandleTokenPayCallback json h (Some body) = failed"
    by (simp add: HandleTokenPayCallback_def)
qed

theorem resolvePayment_precedence_witness:
  "resolvePayment demo_handler (demo_data ''payment_id=7'') = Some (demo_payment 7)
   \<and> resolvePayment demo_handler (demo_data ''payment_id=8'') = Some (demo_payment 9)
   \<and> resolvePayment demo_handler (demo_data []) = Some (demo_payment 9)"
proof -
  have n7: "ParsePassThroughPaymentID ''payment_id=7'' = 7"
    and n8: "ParsePassThroughPaymentID ''payment_id=8'' = 8"
    and n0: "ParsePassThroughPaymentID [] = 0"
    by (simp_all add: ParsePassThroughPaymentID_def str_eval)
  have "resolvePayment demo_handler (demo_data ''payment_id=7'') = Some (demo_payment 7)"
    using resolvePayment_precedence
      [where data = "demo_data ''payment_id=7''" and h = demo_handler and p = "demo_payment 7"]
    by (simp add: n7 demo_data_def demo_handler_def)
  moreover have "resolvePayment demo_handler (demo_data ''payment_id=8'') = Some (demo_payment 9)"
    using resolvePayment_precedence [where data = "demo_data ''payment_id=8''" and h = demo_handler]
    by (simp add: n8 demo_data_def demo_handler_def)
  moreover have "resolvePayment demo_handler (demo_data []) = Some (demo_payment 9)"
    using resolvePayment_precedence [where data = "demo_data []" and h = demo_handler]
    by (simp add: n0 demo_data_def demo_handler_def)
  ultimately show ?thesis by simp
qed

subsection \<open>Callbacks that do not parse or do not verify\<close>

text \<open>
  C9, as amended. When the body cannot be read or parsed, or the parsed callback has a blank
  signature, merchant order reference or provider order reference, the handler reports
  that the callback is not this provider's and writes no response. When the callback
  parses, resolves to a payment whose channel and configuration are read, and its
  signature does not verify, the handler writes the failure token, reports the callback as
  handled and hands nothing to the payment service.
\<close>

theorem HandleTokenPayCallback_rejects:
  "(request_body = None
      \<or> (\<exists>body e. request_body = Some body \<and> ParseCallback (decode json) body = Inl e)
      \<or> (\<exists>body data. request_body = Some body \<and> ParseCallback (decode json) body = Inr data
            \<and> (TrimSpace (Signature data) = [] \<or> TrimSpace (OutOrderID data) = []
                \<or> TrimSpace (TokenOrderID data) = [])) \<longrightarrow>
      HandleTokenPayCallback json h request_body = not_matched)
   \<and> (ParseCallback (decode json) body = Inr data
        \<and> TrimSpace (Signature data) \<noteq> [] \<and> TrimSpace (OutOrderID data) \<noteq> []
        \<and> TrimSpace (TokenOrderID data) \<noteq> []
        \<and> resolvePayment h data = Some payment
        \<and> Channel_GetByID h (ChannelID payment) = (Some channel, False)
        \<and> ParseConfig (unmarshal json) (ConfigJSON channel) = Inr cfg
        \<and> VerifyCallback (Some data) (NotifySecret cfg) = Some ErrSignatureInvalid \<longrightarrow>
        HandleTokenPayCallback json h (Some body) = failed)"
proof (intro conjI impI)
  assume "request_body = None
      \<or> (\<exists>body e. request_body = Some body \<and> ParseCallback (decode json) body = Inl e)
      \<or> (\<exists>body data. request_body = Some body \<and> ParseCallback (decode json) body = Inr data
            \<and> (TrimSpace (Signature data) = [] \<or> TrimSpace (OutOrderID data) = []
                \<or> TrimSpace (TokenOrderID data) = []))"
  then show "HandleTokenPayCallback json h request_body = not_matched"
    by (auto simp: HandleTokenPayCallback_def)
next
  assume a: "ParseCallback (decode json) body = Inr data
        \<and> TrimSpace (Signature data) \<noteq> [] \<and> TrimSpace (OutOrderID data) \<noteq> []
        \<and> TrimSpace (TokenOrderID data) \<noteq> []
        \<and> resolvePayment h data = Some payment
        \<and> Channel_GetByID h (ChannelID payment) = (Some channel, False)
        \<and> ParseConfig (unmarshal json) (ConfigJSON channel) = Inr cfg
        \<and> VerifyCallback (Some data) (NotifySecret cfg) = Some ErrSignatureInvalid"
  then have "settle json h data payment = failed"
    by (simp add: settle_def Let_def)
  with a show "HandleTokenPayCallback json h (Some body) = failed"
    by (simp add: HandleTokenPayCallback_def)
qed

lemma demo_config_parsed:
  "ParseConfig (unmarshal demo_json) (ConfigJSON demo_channel) = Inr demo_cfg"
  by (simp add: ParseConfig_def normalize_def handler_eval str_eval TrimRightSlash_def
        ToUpper_def SiteCurrencyDefault_def demo_cfg_def)

lemma demo_verify:
  "VerifyCallback (Some (demo_data [])) (NotifySecret demo_cfg) = Some ErrSignatureInvalid"
proof -
  have "\<not> EqualFold ''bad'' ''86bc1c5a391d8803697059e60394951b''"
    by (simp add: str_eval)
  then show ?thesis
    by (simp add: VerifyCallback_def demo_data_def demo_cfg_def demo_signature str_eval)
qed

lemma demo_resolved: "resolvePayment demo_handler (demo_data []) = Some (demo_payment 9)"
  by (simp add: resolvePayment_def ParsePassThroughPaymentID_def str_eval demo_data_def
        demo_handler_def)

lemma demo_channel_found:
  "Channel_GetByID demo_handler (ChannelID (demo_payment 9)) = (Some demo_channel, False)"
  by (simp add: demo_handler_def demo_payment_def)

lemma demo_not_blank:
  "TrimSpace (Signature (demo_data [])) \<noteq> [] \<and> TrimSpace (OutOrderID (demo_data [])) \<noteq> []
   \<and> TrimSpace (TokenOrderID (demo_data [])) \<noteq> []"
  by (simp add: demo_data_def str_eval)

theorem HandleTokenPayCallback_rejects_witness:
  "HandleTokenPayCallback demo_json demo_handler None = not_matched
   \<and> HandleTokenPayCallback demo_json demo_handler (Some ''not json'') = not_matched
   \<and> HandleTokenPayCallback demo_json demo_handler (Some demo_body) = failed"
proof -
  have first: "HandleTokenPayCallback demo_json demo_handler None = not_matched"
    using HandleTokenPayCallback_rejects
      [where request_body = None and json = demo_json and h = demo_handler] by simp
  have "ParseCallback (decode demo_json) ''not json'' = Inl ErrResponseInvalid"
    by (simp add: ParseCallback_def demo_json_def demo_body_def)
  then have second: "HandleTokenPayCallback demo_json demo_handler (Some ''not json'') = not_matched"
    using HandleTokenPayCallback_rejects
      [where request_body = "Some ''not json''" and json = demo_json and h = demo_handler]
    by blast
  have third: "HandleTokenPayCallback demo_json demo_handler (Some demo_body) = failed"
    using HandleTokenPayCallback_rejects
      [where json = demo_json and body = demo_body and data = "demo_data []"
         and h = demo_handler and payment = "demo_payment 9" and channel = demo_channel
         and cfg = demo_cfg, THEN conjunct2]
      demo_parse demo_not_blank demo_resolved demo_channel_found demo_config_parsed demo_verify
    by blast
  show ?thesis using first second third by (intro conjI)
qed

text \<open>
  The claim as worded fails at a callback whose signature does not verify: it is
  acknowledged with the failure token and reported as handled.
\<close>

theorem HandleTokenPayCallback_signature_counterexample:
  "ParseCallback (decode demo_json) demo_body = Inr (demo_data [])
   \<and> VerifyCallback (Some (demo_data [])) ''notify-secret'' = Some ErrSignatureInvalid
   \<and> handled (HandleTokenPayCallback demo_json demo_handler (Some demo_body))
   \<and> response (HandleTokenPayCallback demo_json demo_handler (Some demo_body))
       = Some TokenPayCallbackFail"
proof -
  have valid: "ValidateConfig (Some (demo_cfg\<lparr>Currency := DefaultCurrency\<rparr>)) = None"
    by (simp add: ValidateConfig_def demo_cfg_def DefaultCurrency_def str_eval)
  have provider: "ToLower (TrimSpace (Channel_ProviderType demo_channel)) = PaymentProviderTokenpay"
    by (simp add: demo_channel_def PaymentProviderTokenpay_def str_eval)
  have blankcur: "TrimSpace (Currency demo_cfg) = []"
    by (simp add: demo_cfg_def str_eval)
  have "settle demo_json demo_handler (demo_data []) (demo_payment 9) = failed"
    using demo_verify
    by (simp add: settle_def demo_channel_found demo_config_parsed provider blankcur valid)
  then have "HandleTokenPayCallback demo_json demo_handler (Some demo_body) = failed"
    using demo_not_blank
    by (simp add: HandleTokenPayCallback_def demo_parse demo_resolved)
  moreover have "VerifyCallback (Some (demo_data [])) ''notify-secret'' = Some ErrSignatureInvalid"
    using demo_verify by (simp add: demo_cfg_def)
  ultimately show ?thesis using demo_parse by (simp add: failed_def)
qed

section \<open>Paying an order from the wallet\<close>

text \<open>
  C5. In the modelled checkout with a wallet balance of 100 and an order with 50 due,
  \<open>CreatePayment\<close> with \<open>useWalletBalance\<close> leaves a balance of 50, marks the order paid with
  paid-at set, and adds exactly one payment: provider type \<open>wallet\<close>, status Success,
  amount 50, paid-at set; no call to a gateway adapter is made.
\<close>

theorem CreatePayment_wallet_full:
  "\<exists>s'. CreatePayment 2000 0 True wallet_test_state = Inr s'
     \<and> balance s' = 5000
     \<and> Order_Paid (order s') \<and> Order_PaidAt (order s') = Some 2000
     \<and> Order_WalletPaidAmount (order s') = 5000 \<and> Order_OnlinePaidAmount (order s') = 0
     \<and> map ProviderType (payment_rows s') = [PaymentProviderWallet]
     \<and> map Status (payment_rows s') = [PaymentStatusSuccess]
     \<and> map Amount (payment_rows s') = [5000]
     \<and> map PaidAt (payment_rows s') = [Some 2000]
     \<and> map OrderID (payment_rows s') = [1]
     \<and> gateway_calls s' = gateway_calls wallet_test_state"
  by (simp add: CreatePayment_def wallet_test_state_def outstanding_def debit_def Let_def)

section \<open>One active SKU\<close>

lemma best_None: "best precedes xs = None \<longleftrightarrow> xs = []"
  by (induction xs) (auto split: option.splits)

lemma best_mem: "best precedes xs = Some t \<Longrightarrow> t \<in> set xs"
  by (induction xs arbitrary: t) (auto split: option.splits if_splits)

lemma best_first:
  assumes tot: "\<forall>a b. precedes a b \<or> precedes b a"
    and trans: "\<forall>a b c. precedes a b \<and> precedes b c \<longrightarrow> precedes a c"
  shows "best precedes xs = Some t \<Longrightarrow> \<forall>x\<in>set xs. precedes t x"
proof (induction xs arbitrary: t)
  case Nil
  then show ?case by simp
next
  case (Cons x xs)
  have refl: "precedes a a" for a using tot by blast
  show ?case
  proof (cases "best precedes xs")
    case None
    then have "xs = []" by (simp add: best_None)
    with Cons.prems None refl show ?thesis by simp
  next
    case (Some y)
    note ih = Cons.IH [OF Some]
    show ?thesis
    proof (cases "precedes x y")
      case True
      with Cons.prems Some have t: "t = x" by simp
      from True ih trans have "\<forall>z\<in>set xs. precedes x z" by blast
      with t refl show ?thesis by simp
    next
      case False
      with Cons.prems Some have t: "t = y" by simp
      from False tot have "precedes y x" by blast
      with t ih show ?thesis by simp
    qed
  qed
qed

lemma pickTarget_cases:
  assumes "skus \<noteq> []"
  shows "\<exists>t\<in>set skus. pickTarget precedes skus = Some t
     \<and> ((\<exists>a\<in>set skus. IsActive a) \<longrightarrow> best precedes (filter IsActive skus) = Some t \<and> IsActive t)
     \<and> ((\<forall>a\<in>set skus. \<not> IsActive a) \<and> (\<exists>d\<in>set skus. SKUCode d = DefaultSKUCode) \<longrightarrow>
          SKUCode t = DefaultSKUCode)
     \<and> ((\<forall>a\<in>set skus. \<not> IsActive a \<and> SKUCode a \<noteq> DefaultSKUCode) \<longrightarrow>
          best precedes skus = Some t)"
proof (cases "best precedes (filter IsActive skus)")
  case (Some t)
  from best_mem [OF Some] have "t \<in> set skus" "IsActive t" by auto
  with Some show ?thesis by (auto simp: pickTarget_def)
next
  case None
  then have noact: "\<forall>a\<in>set skus. \<not> IsActive a"
    by (auto simp: best_None filter_empty_conv)
  show ?thesis
  proof (cases "find (\<lambda>s. SKUCode s = DefaultSKUCode) skus")
    case (Some t)
    then have "t \<in> set skus" "SKUCode t = DefaultSKUCode"
      by (auto simp: find_Some_iff)
    with None Some noact show ?thesis by (auto simp: pickTarget_def)
  next
    case nodef: None
    then have nd: "\<forall>a\<in>set skus. SKUCode a \<noteq> DefaultSKUCode"
      by (auto simp: find_None_iff)
    from assms obtain t where t: "best precedes skus = Some t"
      by (cases "best precedes skus") (auto simp: best_None)
    from best_mem [OF t] have "t \<in> set skus" .
    with None nodef t noact nd show ?thesis by (auto simp: pickTarget_def)
  qed
qed

lemma filter_key_distinct:
  "distinct (map f xs) \<Longrightarrow> t \<in> set xs \<Longrightarrow> filter (\<lambda>s. f s = f t) xs = [t]"
proof (induction xs)
  case Nil
  then show ?case by simp
next
  case (Cons x xs)
  show ?case
  proof (cases "x = t")
    case True
    with Cons.prems have "\<forall>s\<in>set xs. f s \<noteq> f t" by (auto simp: image_iff)
    then have "filter (\<lambda>s. f s = f t) xs = []" by (simp add: filter_empty_conv)
    with True show ?thesis by simp
  next
    case False
    with Cons.prems have "t \<in> set xs" "f x \<noteq> f t" by (auto simp: image_iff)
    with Cons show ?thesis by simp
  qed
qed

lemma sync_rows:
  assumes d: "distinct (map SKU_ID table)"
    and t: "pickTarget precedes (ListByProduct table productID) = Some t"
    and mem: "t \<in> set (ListByProduct table productID)"
  shows "filter IsActive
           (ListByProduct (syncSingleProductSKU precedes table productID price stock active) productID)
         = [t\<lparr>PriceAmount := price, ManualStockTotal := stock, IsActive := True\<rparr>]"
proof -
  let ?g = "\<lambda>s. if SKU_ProductID s \<noteq> productID then s
                 else if SKU_ID s = SKU_ID t
                   then s\<lparr>PriceAmount := price, ManualStockTotal := stock, IsActive := True\<rparr>
                 else s\<lparr>IsActive := False\<rparr>"
  from mem have tt: "t \<in> set table" and tp: "SKU_ProductID t = productID"
    by (auto simp: ListByProduct_def)
  have same: "SKU_ID s = SKU_ID t \<Longrightarrow> s \<in> set table \<Longrightarrow> s = t" for s
    using d tt by (meson distinct_map inj_onD)
  have "filter IsActive (ListByProduct (map ?g table) productID)
      = map ?g (filter (\<lambda>s. SKU_ProductID s = productID \<and> SKU_ID s = SKU_ID t) table)"
    by (induction table) (auto simp: ListByProduct_def)
  also have "filter (\<lambda>s. SKU_ProductID s = productID \<and> SKU_ID s = SKU_ID t) table
      = filter (\<lambda>s. SKU_ID s = SKU_ID t) table"
    using same tp by (intro filter_cong) auto
  also have "\<dots> = [t]" by (rule filter_key_distinct [OF d tt])
  finally show ?thesis using t tp by (simp add: syncSingleProductSKU_def)
qed

lemma sync_frame:
  "map SKU_ID (syncSingleProductSKU precedes table productID price stock active) = map SKU_ID table
   \<and> filter (\<lambda>s. SKU_ProductID s \<noteq> productID)
         (syncSingleProductSKU precedes table productID price stock active)
       = filter (\<lambda>s. SKU_ProductID s \<noteq> productID) table"
proof (cases "pickTarget precedes (ListByProduct table productID)")
  case None
  then show ?thesis by (simp add: syncSingleProductSKU_def)
next
  case (Some t)
  let ?g = "\<lambda>s. if SKU_ProductID s \<noteq> productID then s
                 else if SKU_ID s = SKU_ID t
                   then s\<lparr>PriceAmount := price, ManualStockTotal := stock, IsActive := True\<rparr>
                 else s\<lparr>IsActive := False\<rparr>"
  have "map SKU_ID (map ?g table) = map SKU_ID table"
    by (induction table) auto
  moreover have "filter (\<lambda>s. SKU_ProductID s \<noteq> productID) (map ?g table)
      = filter (\<lambda>s. SKU_ProductID s \<noteq> productID) table"
    by (induction table) auto
  ultimately show ?thesis using Some by (simp add: syncSingleProductSKU_def)
qed

text \<open>
  C6, as amended. For a table of SKU rows with distinct identifiers and a product that has
  at least one row, after \<open>syncSingleProductSKU\<close> exactly one SKU of the product is active:
  the target, carrying the target price and stock. The target is a currently active SKU
  of the product if there is one, else a SKU bearing the default code if there is one, else
  any SKU of the product; where the ranking is a total preorder, the target is ranked
  first among the active SKUs, and first among all SKUs when none is active and none bears
  the default code. No row is added or removed, and the rows of other products are
  unchanged.
\<close>

theorem syncSingleProductSKU_one_active:
  assumes "distinct (map SKU_ID table)" and "ListByProduct table productID \<noteq> []"
  shows "\<exists>t\<in>set (ListByProduct table productID).
      filter IsActive
        (ListByProduct (syncSingleProductSKU precedes table productID price stock active) productID)
        = [t\<lparr>PriceAmount := price, ManualStockTotal := stock, IsActive := True\<rparr>]
      \<and> ((\<exists>a\<in>set (ListByProduct table productID). IsActive a) \<longrightarrow> IsActive t)
      \<and> ((\<forall>a\<in>set (ListByProduct table productID). \<not> IsActive a)
           \<and> (\<exists>d\<in>set (ListByProduct table productID). SKUCode d = DefaultSKUCode) \<longrightarrow>
           SKUCode t = DefaultSKUCode)
      \<and> ((\<forall>a b. precedes a b \<or> precedes b a)
           \<and> (\<forall>a b c. precedes a b \<and> precedes b c \<longrightarrow> precedes a c) \<longrightarrow>
           (\<forall>a\<in>set (ListByProduct table productID). IsActive a \<longrightarrow> precedes t a)
           \<and> ((\<forall>a\<in>set (ListByProduct table productID).
                  \<not> IsActive a \<and> SKUCode a \<noteq> DefaultSKUCode) \<longrightarrow>
                (\<forall>a\<in>set (ListByProduct table productID). precedes t a)))
      \<and> map SKU_ID (syncSingleProductSKU precedes table productID price stock active)
          = map SKU_ID table
      \<and> filter (\<lambda>s. SKU_ProductID s \<noteq> productID)
            (syncSingleProductSKU precedes table productID price stock active)
          = filter (\<lambda>s. SKU_ProductID s \<noteq> productID) table"
proof -
  let ?skus = "ListByProduct table productID"
  from pickTarget_cases [OF assms(2), of precedes] obtain t where
    mem: "t \<in> set ?skus" and t: "pickTarget precedes ?skus = Some t"
    and act: "(\<exists>a\<in>set ?skus. IsActive a) \<longrightarrow>
        best precedes (filter IsActive ?skus) = Some t \<and> IsActive t"
    and dflt: "(\<forall>a\<in>set ?skus. \<not> IsActive a) \<and> (\<exists>d\<in>set ?skus. SKUCode d = DefaultSKUCode) \<longrightarrow>
        SKUCode t = DefaultSKUCode"
    and any: "(\<forall>a\<in>set ?skus. \<not> IsActive a \<and> SKUCode a \<noteq> DefaultSKUCode) \<longrightarrow>
        best precedes ?skus = Some t"
    by blast
  have rank: "(\<forall>a\<in>set ?skus. IsActive a \<longrightarrow> precedes t a)
      \<and> ((\<forall>a\<in>set ?skus. \<not> IsActive a \<and> SKUCode a \<noteq> DefaultSKUCode) \<longrightarrow>
           (\<forall>a\<in>set ?skus. precedes t a))"
    if tot: "\<forall>a b. precedes a b \<or> precedes b a"
      and trans: "\<forall>a b c. precedes a b \<and> precedes b c \<longrightarrow> precedes a c"
  proof (intro conjI ballI impI)
    fix a assume a: "a \<in> set ?skus" "IsActive a"
    with act have "best precedes (filter IsActive ?skus) = Some t" by blast
    from best_first [OF tot trans this] a show "precedes t a" by simp
  next
    fix a assume "\<forall>a\<in>set ?skus. \<not> IsActive a \<and> SKUCode a \<noteq> DefaultSKUCode"
      and a: "a \<in> set ?skus"
    with any have "best precedes ?skus = Some t" by blast
    from best_first [OF tot trans this] a show "precedes t a" by simp
  qed
  show ?thesis
    using sync_rows [OF assms(1) t mem, of price stock active] act dflt rank
      sync_frame [of precedes table productID price stock active] mem
    by (intro bexI [of _ t]) blast+
qed

theorem syncSingleProductSKU_one_active_witness:
  "length (filter IsActive
      (ListByProduct (syncSingleProductSKU highest_sort_order_first multiple_rows 2001 8888 5 True)
         2001)) = 1
   \<and> test_asserts 2 8888 5
       (ListByProduct (syncSingleProductSKU highest_sort_order_first multiple_rows 2001 8888 5 True)
          2001)
   \<and> test_asserts 2 1990 6
       (ListByProduct (syncSingleProductSKU highest_sort_order_first no_active_rows 2002 1990 6 True)
          2002)"
proof -
  have d: "distinct (map SKU_ID multiple_rows)" and ne: "ListByProduct multiple_rows 2001 \<noteq> []"
    by (simp_all add: multiple_rows_def sku_def ListByProduct_def)
  from syncSingleProductSKU_one_active [OF d ne, of highest_sort_order_first 8888 5 True]
  obtain t where "filter IsActive
      (ListByProduct (syncSingleProductSKU highest_sort_order_first multiple_rows 2001 8888 5 True)
         2001) = [t\<lparr>PriceAmount := 8888, ManualStockTotal := 5, IsActive := True\<rparr>]"
    by blast
  then have one: "length (filter IsActive
      (ListByProduct (syncSingleProductSKU highest_sort_order_first multiple_rows 2001 8888 5 True)
         2001)) = 1"
    by simp
  have first: "test_asserts 2 8888 5
       (ListByProduct (syncSingleProductSKU highest_sort_order_first multiple_rows 2001 8888 5 True)
          2001)"
    by (simp add: test_asserts_def syncSingleProductSKU_def pickTarget_def ListByProduct_def
        multiple_rows_def sku_def highest_sort_order_first_def DefaultSKUCode_def)
  have second: "test_asserts 2 1990 6
       (ListByProduct (syncSingleProductSKU highest_sort_order_first no_active_rows 2002 1990 6 True)
          2002)"
    by (simp add: test_asserts_def syncSingleProductSKU_def pickTarget_def ListByProduct_def
        no_active_rows_def sku_def highest_sort_order_first_def DefaultSKUCode_def)
  show ?thesis using one first second by (intro conjI)
qed

text \<open>
  The claim as worded fails at the rows of the repository's first test: the active SKU
  with the lowest (sortOrder, id) is row 3, and the test expects row 2.
\<close>

theorem syncSingleProductSKU_lowest_counterexample:
  "map SKU_ID (filter IsActive
      (ListByProduct (syncSingleProductSKU lowest_sort_order_first multiple_rows 2001 8888 5 True)
         2001)) = [3]
   \<and> \<not> test_asserts 2 8888 5
       (ListByProduct (syncSingleProductSKU lowest_sort_order_first multiple_rows 2001 8888 5 True)
          2001)"
  by (simp add: test_asserts_def syncSingleProductSKU_def pickTarget_def ListByProduct_def
      multiple_rows_def sku_def lowest_sort_order_first_def DefaultSKUCode_def)

section \<open>Stock counters\<close>









end
